theory Spec2Isabelle
  imports Complex_Main
begin

section \<open>Data model\<close>

text \<open>
  The registration layer of \<^verbatim>\<open>brainglobe_registration/elastix/register.py\<close> marshals
  parameters into an external registration engine and post-processes what the engine
  returns. The engine itself (optimiser, resampler, default parameter tables) is not part
  of the repository: it enters the model as a record of functions, and every theorem
  holds for every engine.

  A parameter map of the engine is a finite map from option names to lists of strings; a
  parameter object is the ordered list of its stages' maps. The caller's Python
  dictionary is the list of its items in iteration order.
\<close>

type_synonym parameter_map = "string \<rightharpoonup> string list"
type_synonym parameter_object = "parameter_map list"
type_synonym py_dict = "(string \<times> string list) list"

text \<open>
  Errors are values. The first four are what the source can raise: an exception of the
  engine passing through unchanged with its diagnostic, \<^verbatim>\<open>None.items()\<close>, an index
  out of bounds, and \<^verbatim>\<open>os.unlink\<close> on a missing path. The last three are the error
  taxonomy of the specification; no statement of either \<^verbatim>\<open>register.py\<close> constructs
  them.
\<close>

datatype error =
    EngineException string
  | AttributeError
  | IndexError
  | FileNotFoundError string
  | ConfigurationError
  | RegistrationError string
  | InversionError string

section \<open>setup_parameter_object\<close>

text \<open>
  \<^verbatim>\<open>for k, v in parameter_dict.items(): parameter_map[k] = v\<close>
\<close>

primrec copy_items :: "py_dict \<Rightarrow> parameter_map \<Rightarrow> parameter_map" where
  "copy_items [] parameter_map = parameter_map"
| "copy_items (kv # kvs) parameter_map = copy_items kvs (parameter_map(fst kv \<mapsto> snd kv))"

text \<open>
  The loop of \<^verbatim>\<open>setup_parameter_object\<close> (register.py, lines 153 to 160), with the
  parameter object built so far as accumulator. Each iteration
  \<^item> asks the engine for the default map of the transform type (the engine may raise:
    \<open>Inl\<close> with its diagnostic),
  \<^item> clears that map,
  \<^item> copies the items of the caller's dictionary into it (an options value of \<open>None\<close>
    has no \<^verbatim>\<open>items\<close>: \<open>AttributeError\<close>),
  \<^item> appends the map to the parameter object.
\<close>

primrec setup_loop ::
  "(string \<Rightarrow> string + parameter_map) \<Rightarrow> (string \<times> py_dict option) list
    \<Rightarrow> parameter_object \<Rightarrow> error + parameter_object" where
  "setup_loop GetDefault [] parameter_object = Inr parameter_object"
| "setup_loop GetDefault (spec # rest) parameter_object =
     (case GetDefault (fst spec) of
        Inl diagnostic \<Rightarrow> Inl (EngineException diagnostic)
      | Inr parameter_map \<Rightarrow>
          (let cleared = Map.empty :: parameter_map in
           case snd spec of
             None \<Rightarrow> Inl AttributeError
           | Some parameter_dict \<Rightarrow>
               setup_loop GetDefault rest
                 (parameter_object @ [copy_items parameter_dict cleared])))"

definition setup_parameter_object ::
  "(string \<Rightarrow> string + parameter_map) \<Rightarrow> (string \<times> py_dict option) list
    \<Rightarrow> error + parameter_object" where
  "setup_parameter_object GetDefault parameter_lists = setup_loop GetDefault parameter_lists []"

text \<open>
  An engine's default table used to run the model on concrete inputs: it knows the three
  kinds the specification lists and raises for every other name.
\<close>

definition sample_defaults :: "string \<Rightarrow> string + parameter_map" where
  "sample_defaults kind =
     (if kind = ''rigid'' then
        Inr [''Transform'' \<mapsto> [''EulerTransform''], ''MaximumNumberOfIterations'' \<mapsto> [''256'']]
      else if kind = ''affine'' then
        Inr [''Transform'' \<mapsto> [''AffineTransform''], ''MaximumNumberOfIterations'' \<mapsto> [''256'']]
      else if kind = ''bspline'' then
        Inr [''Transform'' \<mapsto> [''BSplineTransform''], ''MaximumNumberOfIterations'' \<mapsto> [''256'']]
      else Inl (''No default parameter map '' @ kind))"

section \<open>The engine's interface\<close>

text \<open>
  Modelled from the spec: the accessors of the engine's parameter object, which the
  repository calls and does not define. A transform result "carries per-stage
  interpolation-order settings"; \<^verbatim>\<open>GetParameter(index, key)\<close> reads the entry of one
  stage (an absent entry reads as the empty value list, a stage that does not exist is
  an engine failure), and \<^verbatim>\<open>SetParameter(key, value)\<close>, called without a stage index,
  stores the value "for every stage".
\<close>

definition GetParameter :: "parameter_object \<Rightarrow> nat \<Rightarrow> string \<Rightarrow> error + string list" where
  "GetParameter parameter_object index key =
     (if index < length parameter_object then
        Inr (case (parameter_object ! index) key of None \<Rightarrow> [] | Some v \<Rightarrow> v)
      else Inl (EngineException ''parameter map index out of range''))"

definition SetParameter :: "string \<Rightarrow> string list \<Rightarrow> parameter_object \<Rightarrow> parameter_object" where
  "SetParameter key v parameter_object = map (\<lambda>m. m(key \<mapsto> v)) parameter_object"

text \<open>
  An array has a shape, the list of the sizes of its axes, and its elements in row-major
  order. The deformation field of a registration of two-dimensional images has the shape
  rows, columns, 2; that of three-dimensional images has four axes, the displacement
  vector again on the last one.

  \<^verbatim>\<open>array[:, :, c]\<close> keeps axes 0 and 1, takes index \<open>c\<close> on axis 2 and keeps whatever
  axes follow; it raises when the array has fewer than three axes or axis 2 is too
  short.
\<close>

record 'a ndarray =
  shape :: "nat list"
  elements :: "'a list"

definition index_axis2 :: "nat \<Rightarrow> 'a ndarray \<Rightarrow> error + 'a ndarray" where
  "index_axis2 c array =
     (case shape array of
        n0 # n1 # n2 # rest \<Rightarrow>
          if c < n2 then
            Inr \<lparr>shape = n0 # n1 # rest,
                 elements = concat (map (\<lambda>outer. take (prod_list rest)
                                 (drop ((outer * n2 + c) * prod_list rest) (elements array)))
                               [0..<n0 * n1])\<rparr>
          else Inl IndexError
      | _ \<Rightarrow> Inl IndexError)"

text \<open>
  Files. A path is a string, \<^verbatim>\<open>output_directory / name\<close> joins with a separator. A file
  holds either an array written by \<^verbatim>\<open>imwrite\<close> or something the engine wrote.
  \<^verbatim>\<open>os.unlink\<close> raises when the path does not exist.
\<close>

datatype 'a file_content = Tiff "'a ndarray" | EngineArtifact

type_synonym 'a filesystem = "string \<rightharpoonup> 'a file_content"

definition path_join :: "string \<Rightarrow> string \<Rightarrow> string" where
  "path_join directory name = directory @ ''/'' @ name"

definition imwrite :: "string \<Rightarrow> 'a ndarray \<Rightarrow> 'a filesystem \<Rightarrow> 'a filesystem" where
  "imwrite path array fs = fs(path \<mapsto> Tiff array)"

definition unlink :: "string \<Rightarrow> 'a filesystem \<Rightarrow> (error + unit) \<times> 'a filesystem" where
  "unlink path fs =
     (if fs path = None then (Inl (FileNotFoundError path), fs) else (Inr (), fs(path := None)))"

text \<open>
  The engine, as run_registration calls it, in the order of the calls. Every call may
  raise (\<open>Inl\<close> with the engine's diagnostic); the calls that run the engine may write
  files. The engine receives the parameter object by value.
  \<^item> \<open>GetImageViewFromArray\<close>: \<^verbatim>\<open>itk.GetImageViewFromArray(array).astype(itk.F)\<close>
    (lines 66 and 67).
  \<^item> \<open>ElastixRegistrationMethod_New first second\<close>:
    \<^verbatim>\<open>itk.ElastixRegistrationMethod.New(first, second)\<close> (lines 70 to 72).
  \<^item> \<open>GetDefaultParameterMap\<close>: the default table asked by setup_parameter_object
    (line 74).
  \<^item> \<open>UpdateLargestPossibleRegion elastix_object parameter_object output_directory\<close>:
    \<^verbatim>\<open>SetParameterObject\<close>, the optional \<^verbatim>\<open>SetOutputDirectory\<close>, the update and the
    two getters (lines 76 to 86), which follow one another with no statement of the
    repository between them that could fail; returns the output image and the transform
    parameter object.
  \<^item> \<open>transformix_filter image transform\<close>: \<^verbatim>\<open>itk.transformix_filter\<close> (lines 94 to 97).
  \<^item> \<open>TransformixFilter image transform output_directory\<close>: \<^verbatim>\<open>TransformixFilter.New\<close>
    with \<^verbatim>\<open>SetComputeDeformationField(True)\<close>, the optional output directory, the
    update and \<^verbatim>\<open>GetOutputDeformationField\<close> (lines 103 to 113).
\<close>

record ('img, 'elx, 'a) engine =
  GetImageViewFromArray :: "'img \<Rightarrow> string + 'img"
  ElastixRegistrationMethod_New :: "'img \<Rightarrow> 'img \<Rightarrow> string + 'elx"
  GetDefaultParameterMap :: "string \<Rightarrow> string + parameter_map"
  UpdateLargestPossibleRegion ::
    "'elx \<Rightarrow> parameter_object \<Rightarrow> string option \<Rightarrow> 'a filesystem
      \<Rightarrow> (string + 'img \<times> parameter_object) \<times> 'a filesystem"
  transformix_filter ::
    "'img \<Rightarrow> parameter_object \<Rightarrow> 'a filesystem \<Rightarrow> (string + 'img) \<times> 'a filesystem"
  TransformixFilter ::
    "'img \<Rightarrow> parameter_object \<Rightarrow> string option \<Rightarrow> 'a filesystem
      \<Rightarrow> (string + 'a ndarray) \<times> 'a filesystem"

section \<open>run_registration\<close>

text \<open>
  Lines 115 to 127: with an output directory, \<^verbatim>\<open>deformation_field[:, :, 1]\<close> is written
  to \<^verbatim>\<open>deformation_field_0.tiff\<close> and \<^verbatim>\<open>deformation_field[:, :, 0]\<close> to
  \<^verbatim>\<open>deformation_field_1.tiff\<close>, then the engine's \<^verbatim>\<open>deformationField.tiff\<close> in that
  directory is unlinked; without one, \<^verbatim>\<open>deformationField.tiff\<close> in the working
  directory is unlinked.
\<close>

definition write_deformation_field ::
  "string option \<Rightarrow> 'a ndarray \<Rightarrow> 'a filesystem \<Rightarrow> (error + unit) \<times> 'a filesystem" where
  "write_deformation_field output_directory deformation_field fs =
     (case output_directory of
        Some directory \<Rightarrow>
          (case index_axis2 1 deformation_field of
             Inl e \<Rightarrow> (Inl e, fs)
           | Inr slice1 \<Rightarrow>
               (let fs1 = imwrite (path_join directory ''deformation_field_0.tiff'') slice1 fs in
                case index_axis2 0 deformation_field of
                  Inl e \<Rightarrow> (Inl e, fs1)
                | Inr slice0 \<Rightarrow>
                    unlink (path_join directory ''deformationField.tiff'')
                      (imwrite (path_join directory ''deformation_field_1.tiff'') slice0 fs1)))
      | None \<Rightarrow> unlink ''deformationField.tiff'' fs)"

text \<open>
  Lines 65 to 113, statement by statement: the two images are converted, the registration
  object is built on the moving and the atlas view, the parameter object is set up, the
  registration runs, the interpolation order of stage 0 is saved, every stage is set to
  order 0, the annotation image is transformed, every stage is set to the saved order,
  and the deformation field is computed with the transform so restored. An exception of
  any step ends the call with what has been written so far.
\<close>

definition compute_results ::
  "('img, 'elx, 'a) engine \<Rightarrow> 'img \<Rightarrow> 'img \<Rightarrow> 'img \<Rightarrow> (string \<times> py_dict option) list
    \<Rightarrow> string option \<Rightarrow> 'a filesystem
    \<Rightarrow> (error + 'img \<times> parameter_object \<times> 'img \<times> 'a ndarray) \<times> 'a filesystem" where
  "compute_results eng atlas_image moving_image annotation_image parameter_lists
      output_directory fs =
     (case GetImageViewFromArray eng atlas_image of
        Inl diagnostic \<Rightarrow> (Inl (EngineException diagnostic), fs)
      | Inr atlas_view \<Rightarrow>
     (case GetImageViewFromArray eng moving_image of
        Inl diagnostic \<Rightarrow> (Inl (EngineException diagnostic), fs)
      | Inr moving_view \<Rightarrow>
     (case ElastixRegistrationMethod_New eng moving_view atlas_view of
        Inl diagnostic \<Rightarrow> (Inl (EngineException diagnostic), fs)
      | Inr elastix_object \<Rightarrow>
     (case setup_parameter_object (GetDefaultParameterMap eng) parameter_lists of
        Inl e \<Rightarrow> (Inl e, fs)
      | Inr parameter_object \<Rightarrow>
     (case UpdateLargestPossibleRegion eng elastix_object parameter_object
             output_directory fs of
        (Inl diagnostic, fs1) \<Rightarrow> (Inl (EngineException diagnostic), fs1)
      | (Inr (result_image, result_transform_parameters), fs1) \<Rightarrow>
     (case GetParameter result_transform_parameters 0 ''FinalBSplineInterpolationOrder'' of
        Inl e \<Rightarrow> (Inl e, fs1)
      | Inr temp_interp_order \<Rightarrow>
     (let zeroed = SetParameter ''FinalBSplineInterpolationOrder'' [''0'']
                     result_transform_parameters in
      case transformix_filter eng annotation_image zeroed fs1 of
        (Inl diagnostic, fs2) \<Rightarrow> (Inl (EngineException diagnostic), fs2)
      | (Inr annotation_image_transformix, fs2) \<Rightarrow>
     (let restored = SetParameter ''FinalBSplineInterpolationOrder'' temp_interp_order zeroed in
      case TransformixFilter eng moving_view restored output_directory fs2 of
        (Inl diagnostic, fs3) \<Rightarrow> (Inl (EngineException diagnostic), fs3)
      | (Inr deformation_field, fs3) \<Rightarrow>
          (Inr (result_image, restored, annotation_image_transformix, deformation_field),
           fs3)))))))))"

text \<open>
  The whole function: the results of lines 65 to 113, then the writes and the cleanup
  of lines 115 to 127, then the return of the four results.
\<close>

definition run_registration ::
  "('img, 'elx, 'a) engine \<Rightarrow> 'img \<Rightarrow> 'img \<Rightarrow> 'img \<Rightarrow> (string \<times> py_dict option) list
    \<Rightarrow> string option \<Rightarrow> 'a filesystem
    \<Rightarrow> (error + 'img \<times> parameter_object \<times> 'img \<times> 'a ndarray) \<times> 'a filesystem" where
  "run_registration eng atlas_image moving_image annotation_image parameter_lists
      output_directory fs =
     (case compute_results eng atlas_image moving_image annotation_image parameter_lists
             output_directory fs of
        (Inl e, fs3) \<Rightarrow> (Inl e, fs3)
      | (Inr results, fs3) \<Rightarrow>
          (case write_deformation_field output_directory (snd (snd (snd results))) fs3 of
             (Inl e, fs4) \<Rightarrow> (Inl e, fs4)
           | (Inr u, fs4) \<Rightarrow> (Inr results, fs4)))"

text \<open>The path of the engine's default-named field file in either mode (lines 125, 127).\<close>

definition stray_artifact :: "string option \<Rightarrow> string" where
  "stray_artifact output_directory =
     (case output_directory of
        Some directory \<Rightarrow> path_join directory ''deformationField.tiff''
      | None \<Rightarrow> ''deformationField.tiff'')"

text \<open>
  Two notions of the specification, defined on the last axis of a field, where the
  displacement vectors lie whatever the number of axes. \<open>vector_component c\<close> is the
  array of the \<open>c\<close>-th entries of all vectors. \<open>switch_axes\<close> is the permutation asked
  of the returned field: the entries of every vector in reverse order.
\<close>

definition vector_component :: "nat \<Rightarrow> 'a ndarray \<Rightarrow> 'a ndarray" where
  "vector_component c field =
     \<lparr>shape = butlast (shape field),
      elements = map (\<lambda>cell. elements field ! (cell * last (shape field) + c))
                   [0..<prod_list (butlast (shape field))]\<rparr>"

definition switch_axes :: "'a ndarray \<Rightarrow> 'a ndarray" where
  "switch_axes field =
     field\<lparr>elements :=
       map (\<lambda>i. elements field !
                  ((i div last (shape field)) * last (shape field)
                   + (last (shape field) - 1 - i mod last (shape field))))
         [0..<length (elements field)]\<rparr>"

text \<open>
  An engine used to run the model on concrete inputs. An image is represented by its
  number of dimensions. Only images of two or three dimensions can be converted, and
  the registration object can be built only on two images of the same dimension. The
  registration raises when a stage allows no iteration; otherwise its transform has one
  stage per input stage, carrying the stage's \<^verbatim>\<open>FinalBSplineInterpolationOrder\<close>
  (default 3) and \<^verbatim>\<open>ResultImageFormat\<close> (default mhd). Transforming an image returns
  it. Computing the deformation field returns a fixed field, of shape 1, 2, 2 for a
  two-dimensional image (the vectors (10, 20) and (30, 40)) and of shape 1, 1, 2, 3
  otherwise (the vectors (1, 2, 3) and (4, 5, 6)), and writes the file
  \<^verbatim>\<open>deformationField.<format>\<close>, the format read from the last stage of the transform.
\<close>

definition sample_stage :: "parameter_map \<Rightarrow> parameter_map" where
  "sample_stage m =
     [''FinalBSplineInterpolationOrder'' \<mapsto>
        (case m ''FinalBSplineInterpolationOrder'' of None \<Rightarrow> [''3''] | Some v \<Rightarrow> v),
      ''ResultImageFormat'' \<mapsto>
        (case m ''ResultImageFormat'' of None \<Rightarrow> [''mhd''] | Some v \<Rightarrow> v)]"

definition sample_field :: "int ndarray" where
  "sample_field = \<lparr>shape = [1, 2, 2], elements = [10, 20, 30, 40]\<rparr>"

definition sample_field_3d :: "int ndarray" where
  "sample_field_3d = \<lparr>shape = [1, 1, 2, 3], elements = [1, 2, 3, 4, 5, 6]\<rparr>"

definition sample_field_file :: "parameter_object \<Rightarrow> string" where
  "sample_field_file transform =
     ''deformationField.'' @
       (case transform of
          [] \<Rightarrow> ''mhd''
        | m # ms \<Rightarrow> (case last (m # ms) ''ResultImageFormat'' of
                      Some [format] \<Rightarrow> format
                    | _ \<Rightarrow> ''mhd''))"

definition sample_engine :: "(nat, nat \<times> nat, int) engine" where
  "sample_engine =
     \<lparr>GetImageViewFromArray = (\<lambda>image.
        if image = 2 \<or> image = 3 then Inr image else Inl ''unsupported image dimension''),
      ElastixRegistrationMethod_New = (\<lambda>first second.
        if first = second then Inr (first, second) else Inl ''image dimensions do not match''),
      GetDefaultParameterMap = sample_defaults,
      UpdateLargestPossibleRegion = (\<lambda>elastix_object parameter_object output_directory fs.
        if list_ex (\<lambda>m. m ''MaximumNumberOfIterations'' = Some [''0'']) parameter_object
        then (Inl ''optimizer did not converge'', fs)
        else (Inr (snd elastix_object, map sample_stage parameter_object), fs)),
      transformix_filter = (\<lambda>image transform fs. (Inr image, fs)),
      TransformixFilter = (\<lambda>image transform output_directory fs.
        (Inr (if image = 2 then sample_field else sample_field_3d),
         fs((case output_directory of
               Some directory \<Rightarrow> path_join directory (sample_field_file transform)
             | None \<Rightarrow> sample_field_file transform) \<mapsto> EngineArtifact)))\<rparr>"

text \<open>Projections used to state properties of the outcome of a call.\<close>

definition interpolation_orders :: "parameter_object \<Rightarrow> string list option list" where
  "interpolation_orders transform = map (\<lambda>m. m ''FinalBSplineInterpolationOrder'') transform"

definition returned_orders ::
  "(error + 'img \<times> parameter_object \<times> 'img \<times> 'a ndarray) \<times> 'a filesystem
    \<Rightarrow> string list option list option" where
  "returned_orders outcome =
     (case fst outcome of
        Inr results \<Rightarrow> Some (interpolation_orders (fst (snd results)))
      | Inl e \<Rightarrow> None)"

text \<open>
  The interpolation orders of the transform as the engine's registration produced it,
  before the annotation step touches it (lines 66 to 86).
\<close>

definition registration_orders ::
  "('img, 'elx, 'a) engine \<Rightarrow> 'img \<Rightarrow> 'img \<Rightarrow> (string \<times> py_dict option) list
    \<Rightarrow> string option \<Rightarrow> 'a filesystem \<Rightarrow> string list option list option" where
  "registration_orders eng atlas_image moving_image parameter_lists output_directory fs =
     (case GetImageViewFromArray eng atlas_image of
        Inl diagnostic \<Rightarrow> None
      | Inr atlas_view \<Rightarrow>
     (case GetImageViewFromArray eng moving_image of
        Inl diagnostic \<Rightarrow> None
      | Inr moving_view \<Rightarrow>
     (case ElastixRegistrationMethod_New eng moving_view atlas_view of
        Inl diagnostic \<Rightarrow> None
      | Inr elastix_object \<Rightarrow>
     (case setup_parameter_object (GetDefaultParameterMap eng) parameter_lists of
        Inl e \<Rightarrow> None
      | Inr parameter_object \<Rightarrow>
     (case fst (UpdateLargestPossibleRegion eng elastix_object parameter_object
                  output_directory fs) of
        Inl diagnostic \<Rightarrow> None
      | Inr registered \<Rightarrow> Some (interpolation_orders (snd registered)))))))"

definition returned_field ::
  "(error + 'img \<times> parameter_object \<times> 'img \<times> 'a ndarray) \<times> 'a filesystem
    \<Rightarrow> 'a ndarray option" where
  "returned_field outcome =
     (case fst outcome of
        Inr results \<Rightarrow> Some (snd (snd (snd results)))
      | Inl e \<Rightarrow> None)"

text \<open>
  A parameter list of two stages whose interpolation orders differ, both asking the
  engine for tiff output.
\<close>

definition two_stage_lists :: "(string \<times> py_dict option) list" where
  "two_stage_lists =
     [(''rigid'', Some [(''FinalBSplineInterpolationOrder'', [''3'']),
                        (''ResultImageFormat'', [''tiff''])]),
      (''bspline'', Some [(''FinalBSplineInterpolationOrder'', [''1'']),
                          (''ResultImageFormat'', [''tiff''])])]"

section \<open>Inversion\<close>

text \<open>
  Modelled from the spec: \<^verbatim>\<open>invert_transformation\<close>, which the tests import from
  \<^verbatim>\<open>register.py\<close> and which neither source file defines, together with the engine
  call it makes. Section 4.4: the registration is re-run "using the reference image as
  both fixed and moving input, seeded with the forward transform as the initial
  transform"; the call returns "the reference image mapped through the composed inverse
  and the inverse transform object itself"; it fails with the taxonomy of the forward
  registration (section 4.2: \<open>RegistrationError\<close> with the engine's diagnostic) and
  "additionally fails with \<open>InversionError\<close> if the seeded optimization diverges
  (detected via the engine's non-convergence signal)".
\<close>

record ('img, 'a) inversion_engine =
  ElastixSeeded ::
    "'img \<Rightarrow> 'img \<Rightarrow> parameter_object \<Rightarrow> parameter_object \<Rightarrow> 'a filesystem
      \<Rightarrow> (string + 'img \<times> parameter_object) \<times> 'a filesystem"
  non_convergence :: "string \<Rightarrow> bool"

definition invert ::
  "('img, 'a) inversion_engine \<Rightarrow> 'img \<Rightarrow> parameter_object \<Rightarrow> parameter_object
    \<Rightarrow> 'a filesystem \<Rightarrow> (error + 'img \<times> parameter_object) \<times> 'a filesystem" where
  "invert eng reference_image spec_set forward_transform fs =
     (case ElastixSeeded eng reference_image reference_image spec_set forward_transform fs of
        (Inl diagnostic, fs1) \<Rightarrow>
          (Inl (if non_convergence eng diagnostic then InversionError diagnostic
                else RegistrationError diagnostic), fs1)
      | (Inr (inverted_image, inverse_transform), fs1) \<Rightarrow>
          (Inr (inverted_image, inverse_transform), fs1))"

text \<open>
  An inversion engine for concrete inputs: it raises on images of different dimension,
  reports non-convergence when the seed has no stage, and otherwise returns the moving
  image with one transform stage per stage of the spec set.
\<close>

definition sample_inversion_engine :: "(nat, int) inversion_engine" where
  "sample_inversion_engine =
     \<lparr>ElastixSeeded = (\<lambda>fixed moving spec_set initial fs.
        if fixed \<noteq> moving then (Inl ''image dimensions do not match'', fs)
        else if initial = [] then (Inl ''optimizer did not converge'', fs)
        else (Inr (moving, map sample_stage spec_set), fs)),
      non_convergence = (\<lambda>diagnostic. diagnostic = ''optimizer did not converge'')\<rparr>"

section \<open>The adjustment form\<close>

text \<open>
  \<^verbatim>\<open>AdjustMovingImageView\<close> (widgets/adjust_moving_image_view.py) holds two integer
  spin boxes and one floating spin box. The spin boxes belong to the GUI toolkit; they
  are modelled by what the toolkit documents: a fresh box has range 0 to 99 (99.99 for
  the floating box, with two decimals and step 1) and value 0; \<^verbatim>\<open>setRange\<close> stores the
  bounds and pulls the value inside; \<^verbatim>\<open>setValue\<close> bounds the new value (the floating
  box rounds it to its decimals first) and reports a change only when the stored value
  changes, which is when \<^verbatim>\<open>valueChanged\<close> fires. A rotation is a real number here; the
  rounding of machine floats is not modelled.
\<close>

record spin_box =
  sb_minimum :: int
  sb_maximum :: int
  sb_value :: int

record double_spin_box =
  dsb_minimum :: real
  dsb_maximum :: real
  dsb_single_step :: real
  dsb_decimals :: nat
  dsb_value :: real

definition QSpinBox :: spin_box where
  "QSpinBox = \<lparr>sb_minimum = 0, sb_maximum = 99, sb_value = 0\<rparr>"

definition QDoubleSpinBox :: double_spin_box where
  "QDoubleSpinBox =
     \<lparr>dsb_minimum = 0, dsb_maximum = 99.99, dsb_single_step = 1, dsb_decimals = 2,
      dsb_value = 0\<rparr>"

definition setRange :: "int \<Rightarrow> int \<Rightarrow> spin_box \<Rightarrow> spin_box" where
  "setRange lo hi box =
     box\<lparr>sb_minimum := lo, sb_maximum := max lo hi,
         sb_value := max lo (min (max lo hi) (sb_value box))\<rparr>"

definition setValue :: "int \<Rightarrow> spin_box \<Rightarrow> spin_box \<times> bool" where
  "setValue v box =
     (let bounded = max (sb_minimum box) (min (sb_maximum box) v)
      in (box\<lparr>sb_value := bounded\<rparr>, bounded \<noteq> sb_value box))"

definition round_decimals :: "nat \<Rightarrow> real \<Rightarrow> real" where
  "round_decimals d v = real_of_int (round (v * 10 ^ d)) / 10 ^ d"

definition setRange_double :: "real \<Rightarrow> real \<Rightarrow> double_spin_box \<Rightarrow> double_spin_box" where
  "setRange_double lo hi box =
     box\<lparr>dsb_minimum := lo, dsb_maximum := max lo hi,
         dsb_value := max lo (min (max lo hi) (dsb_value box))\<rparr>"

definition setSingleStep :: "real \<Rightarrow> double_spin_box \<Rightarrow> double_spin_box" where
  "setSingleStep s box = (if 0 \<le> s then box\<lparr>dsb_single_step := s\<rparr> else box)"

definition setValue_double :: "real \<Rightarrow> double_spin_box \<Rightarrow> double_spin_box \<times> bool" where
  "setValue_double v box =
     (let bounded = max (dsb_minimum box)
                      (min (dsb_maximum box) (round_decimals (dsb_decimals box) v))
      in (box\<lparr>dsb_value := bounded\<rparr>, bounded \<noteq> dsb_value box))"

text \<open>
  The two signals of the view (lines 14 and 15), and the view with its three controls as
  \<^verbatim>\<open>__init__\<close> configures them (lines 22 to 38): both offsets range over -2000 to
  2000, the rotation over -360 to 360 in steps of 0.5. All three \<^verbatim>\<open>valueChanged\<close>
  signals are connected to \<^verbatim>\<open>_on_adjust_image\<close>.
\<close>

datatype signal = adjust_image_signal int int real | reset_image_signal

record adjust_moving_image_view =
  adjust_moving_image_x :: spin_box
  adjust_moving_image_y :: spin_box
  adjust_moving_image_rotate :: double_spin_box

definition init_view :: adjust_moving_image_view where
  "init_view =
     (let min_offset_range = - 2000; max_offset_range = 2000 in
      \<lparr>adjust_moving_image_x = setRange min_offset_range max_offset_range QSpinBox,
       adjust_moving_image_y = setRange min_offset_range max_offset_range QSpinBox,
       adjust_moving_image_rotate =
         setSingleStep 0.5 (setRange_double (- 360) 360 QDoubleSpinBox)\<rparr>)"

text \<open>
  \<^verbatim>\<open>_on_adjust_image\<close> (lines 54 to 59) emits the current values of all three controls.
\<close>

definition on_adjust_image :: "adjust_moving_image_view \<Rightarrow> signal" where
  "on_adjust_image view =
     adjust_image_signal (sb_value (adjust_moving_image_x view))
       (sb_value (adjust_moving_image_y view))
       (dsb_value (adjust_moving_image_rotate view))"

text \<open>
  A new value arriving at one control: the control takes it, and when its value changes
  the connected handler runs on the view as it then is.
\<close>

definition change_x :: "int \<Rightarrow> adjust_moving_image_view \<Rightarrow> adjust_moving_image_view \<times> signal list" where
  "change_x v view =
     (let changed = setValue v (adjust_moving_image_x view);
          view' = view\<lparr>adjust_moving_image_x := fst changed\<rparr>
      in (view', if snd changed then [on_adjust_image view'] else []))"

definition change_y :: "int \<Rightarrow> adjust_moving_image_view \<Rightarrow> adjust_moving_image_view \<times> signal list" where
  "change_y v view =
     (let changed = setValue v (adjust_moving_image_y view);
          view' = view\<lparr>adjust_moving_image_y := fst changed\<rparr>
      in (view', if snd changed then [on_adjust_image view'] else []))"

definition change_rotate :: "real \<Rightarrow> adjust_moving_image_view \<Rightarrow> adjust_moving_image_view \<times> signal list" where
  "change_rotate v view =
     (let changed = setValue_double v (adjust_moving_image_rotate view);
          view' = view\<lparr>adjust_moving_image_rotate := fst changed\<rparr>
      in (view', if snd changed then [on_adjust_image view'] else []))"

text \<open>
  \<^verbatim>\<open>_on_reset_image_button_click\<close> (lines 61 to 66): the three controls are set to 0 in
  turn, each firing the handler if its value changes, then the reset signal is emitted.
\<close>

definition on_reset_image_button_click ::
  "adjust_moving_image_view \<Rightarrow> adjust_moving_image_view \<times> signal list" where
  "on_reset_image_button_click view =
     (let r1 = change_x 0 view;
          r2 = change_y 0 (fst r1);
          r3 = change_rotate 0 (fst r2)
      in (fst r3, snd r1 @ snd r2 @ snd r3 @ [reset_image_signal]))"

text \<open>
  What a user can do to the form: type a value into a control, step a control up or down
  by a number of steps, or click the reset button. A session is a sequence of such
  actions; its trace is the list of the signals emitted, in order.
\<close>

datatype user_action =
    EditX int | EditY int | EditRotate real
  | StepX int | StepY int | StepRotate int
  | ClickReset

fun user_step :: "adjust_moving_image_view \<Rightarrow> user_action \<Rightarrow> adjust_moving_image_view \<times> signal list" where
  "user_step view (EditX v) = change_x v view"
| "user_step view (EditY v) = change_y v view"
| "user_step view (EditRotate v) = change_rotate v view"
| "user_step view (StepX n) = change_x (sb_value (adjust_moving_image_x view) + n) view"
| "user_step view (StepY n) = change_y (sb_value (adjust_moving_image_y view) + n) view"
| "user_step view (StepRotate n) =
     change_rotate (dsb_value (adjust_moving_image_rotate view)
                     + real_of_int n * dsb_single_step (adjust_moving_image_rotate view)) view"
| "user_step view ClickReset = on_reset_image_button_click view"

primrec user_session ::
  "adjust_moving_image_view \<Rightarrow> user_action list \<Rightarrow> adjust_moving_image_view \<times> signal list" where
  "user_session view [] = (view, [])"
| "user_session view (a # as) =
     (let r = user_step view a; rest = user_session (fst r) as
      in (fst rest, snd r @ snd rest))"

text \<open>
  The state invariant: the controls keep the ranges and the step set by \<^verbatim>\<open>__init__\<close>
  (and the floating box its two decimals), and each value lies in its range.
\<close>

definition configured :: "adjust_moving_image_view \<Rightarrow> bool" where
  "configured view =
     (sb_minimum (adjust_moving_image_x view) = - 2000 \<and>
      sb_maximum (adjust_moving_image_x view) = 2000 \<and>
      sb_minimum (adjust_moving_image_y view) = - 2000 \<and>
      sb_maximum (adjust_moving_image_y view) = 2000 \<and>
      dsb_minimum (adjust_moving_image_rotate view) = - 360 \<and>
      dsb_maximum (adjust_moving_image_rotate view) = 360 \<and>
      dsb_single_step (adjust_moving_image_rotate view) = 1 / 2 \<and>
      dsb_decimals (adjust_moving_image_rotate view) = 2 \<and>
      - 2000 \<le> sb_value (adjust_moving_image_x view) \<and>
      sb_value (adjust_moving_image_x view) \<le> 2000 \<and>
      - 2000 \<le> sb_value (adjust_moving_image_y view) \<and>
      sb_value (adjust_moving_image_y view) \<le> 2000 \<and>
      - 360 \<le> dsb_value (adjust_moving_image_rotate view) \<and>
      dsb_value (adjust_moving_image_rotate view) \<le> 360)"

primrec signal_in_range :: "signal \<Rightarrow> bool" where
  "signal_in_range (adjust_image_signal x y r) =
     (- 2000 \<le> x \<and> x \<le> 2000 \<and> - 2000 \<le> y \<and> y \<le> 2000 \<and> - 360 \<le> r \<and> r \<le> 360)"
| "signal_in_range reset_image_signal = True"

section \<open>Properties of setup_parameter_object\<close>

lemma copy_items_map_of: "copy_items d m = m ++ map_of (rev d)"
  by (induction d arbitrary: m) simp_all

lemma dict_lookup_rev:
  assumes "distinct (map fst d)" and "(k, v) \<in> set d"
  shows "map_of (rev d) k = Some v"
proof -
  have "distinct (map fst (rev d))" using assms(1) by (simp add: rev_map [symmetric])
  moreover have "(k, v) \<in> set (rev d)" using assms(2) by simp
  ultimately show ?thesis by (rule map_of_is_SomeI)
qed

lemma setup_loop_Inr:
  "(setup_loop G specs acc = Inr po) =
     ((\<forall>s\<in>set specs. \<not> isl (G (fst s)) \<and> snd s \<noteq> None) \<and>
      po = acc @ map (\<lambda>s. copy_items (the (snd s)) Map.empty) specs)"
  by (induction specs arbitrary: acc) (auto split: sum.splits option.splits)

lemma setup_loop_Inl:
  "(\<exists>e. setup_loop G specs acc = Inl e) = (\<exists>s\<in>set specs. isl (G (fst s)) \<or> snd s = None)"
  by (induction specs arbitrary: acc) (auto split: sum.splits option.splits)

lemma setup_loop_not_configuration_error:
  "setup_loop G specs acc \<noteq> Inl ConfigurationError"
  by (induction specs arbitrary: acc) (auto split: sum.splits option.splits)

lemma setup_loop_Inl_iff:
  "(setup_loop G specs acc = Inl e) =
     (\<exists>earlier kind options later.
        specs = earlier @ (kind, options) # later \<and>
        (\<forall>s\<in>set earlier. \<not> isl (G (fst s)) \<and> snd s \<noteq> None) \<and>
        (case G kind of
           Inl diagnostic \<Rightarrow> e = EngineException diagnostic
         | Inr parameter_map \<Rightarrow> options = None \<and> e = AttributeError))"
  (is "?L specs acc = ?R specs")
proof (induction specs arbitrary: acc)
  case Nil
  show ?case by simp
next
  case (Cons spec rest)
  let ?here = "case G (fst spec) of
           Inl diagnostic \<Rightarrow> e = EngineException diagnostic
         | Inr parameter_map \<Rightarrow> snd spec = None \<and> e = AttributeError"
  let ?ok = "\<not> isl (G (fst spec)) \<and> snd spec \<noteq> None"
  have split: "?R (spec # rest) = (?here \<or> (?ok \<and> ?R rest))"
  proof
    assume "?R (spec # rest)"
    then obtain earlier kind options later where
      eq: "spec # rest = earlier @ (kind, options) # later"
      and ok: "\<forall>s\<in>set earlier. \<not> isl (G (fst s)) \<and> snd s \<noteq> None"
      and fail: "case G kind of
           Inl diagnostic \<Rightarrow> e = EngineException diagnostic
         | Inr parameter_map \<Rightarrow> options = None \<and> e = AttributeError"
      by blast
    show "?here \<or> (?ok \<and> ?R rest)"
    proof (cases earlier)
      case Nil
      with eq have "spec = (kind, options)" by simp
      with fail have ?here by (auto split: sum.splits)
      then show ?thesis ..
    next
      case (Cons s earlier')
      with eq have s: "s = spec" and rest: "rest = earlier' @ (kind, options) # later"
        by simp_all
      from ok Cons s have ?ok by simp
      moreover from ok Cons have "\<forall>s\<in>set earlier'. \<not> isl (G (fst s)) \<and> snd s \<noteq> None"
        by simp
      with rest fail have "?R rest" by blast
      ultimately show ?thesis by blast
    qed
  next
    assume "?here \<or> (?ok \<and> ?R rest)"
    then show "?R (spec # rest)"
    proof
      assume ?here
      then have "spec # rest = [] @ (fst spec, snd spec) # rest \<and>
        (\<forall>s\<in>set []. \<not> isl (G (fst s)) \<and> snd s \<noteq> None) \<and>
        (case G (fst spec) of
           Inl diagnostic \<Rightarrow> e = EngineException diagnostic
         | Inr parameter_map \<Rightarrow> snd spec = None \<and> e = AttributeError)"
        by simp
      then show ?thesis
        by - (rule exI [of _ "[]"], rule exI [of _ "fst spec"], rule exI [of _ "snd spec"],
              rule exI [of _ rest], assumption)
    next
      assume "?ok \<and> ?R rest"
      then obtain earlier kind options later where
        "rest = earlier @ (kind, options) # later"
        "\<forall>s\<in>set earlier. \<not> isl (G (fst s)) \<and> snd s \<noteq> None"
        "case G kind of
           Inl diagnostic \<Rightarrow> e = EngineException diagnostic
         | Inr parameter_map \<Rightarrow> options = None \<and> e = AttributeError"
        and ?ok
        by blast
      then have "spec # rest = (spec # earlier) @ (kind, options) # later \<and>
        (\<forall>s\<in>set (spec # earlier). \<not> isl (G (fst s)) \<and> snd s \<noteq> None) \<and>
        (case G kind of
           Inl diagnostic \<Rightarrow> e = EngineException diagnostic
         | Inr parameter_map \<Rightarrow> options = None \<and> e = AttributeError)"
        by simp
      then show ?thesis
        by - (rule exI [of _ "spec # earlier"], rule exI [of _ kind], rule exI [of _ options],
              rule exI [of _ later], assumption)
    qed
  qed
  have "?L (spec # rest) acc = (?here \<or> (?ok \<and> ?R rest))"
    using Cons.IH by (auto split: sum.splits option.splits)
  with split show ?case by simp
qed

lemma setup_parameter_object_Inr:
  "(setup_parameter_object G specs = Inr po) =
     ((\<forall>s\<in>set specs. \<not> isl (G (fst s)) \<and> snd s \<noteq> None) \<and>
      po = map (\<lambda>s. map_of (rev (the (snd s)))) specs)"
  by (simp add: setup_parameter_object_def setup_loop_Inr copy_items_map_of)

text \<open>
  C4 (as the code has it). Whenever the call returns, the stage built from a supplied
  dictionary holds exactly the supplied items: every supplied key with its (last) supplied
  value and no other key, whatever the engine's default map for the kind was. The same
  holds for an empty dictionary: the stage map is then empty, the default map is
  discarded, not used. For a dictionary, whose keys are distinct, the stage map is
  \<open>map_of\<close> of its items.
\<close>

theorem setup_parameter_object_replaces_defaults:
  assumes "setup_parameter_object GetDefault parameter_lists = Inr po"
    and "i < length parameter_lists"
    and "snd (parameter_lists ! i) = Some parameter_dict"
  shows "po ! i = map_of (rev parameter_dict)
    \<and> (distinct (map fst parameter_dict) \<longrightarrow> po ! i = map_of parameter_dict)
    \<and> (parameter_dict = [] \<longrightarrow> po ! i = Map.empty)"
proof -
  have stage: "po ! i = map_of (rev parameter_dict)"
    using assms by (simp add: setup_parameter_object_Inr)
  have "map_of (rev parameter_dict) = map_of parameter_dict"
    if "distinct (map fst parameter_dict)"
  proof
    fix k
    show "map_of (rev parameter_dict) k = map_of parameter_dict k"
    proof (cases "map_of parameter_dict k")
      case None
      then have "map_of (rev parameter_dict) k = None" by (simp add: map_of_eq_None_iff)
      with None show ?thesis by simp
    next
      case (Some v)
      then have "(k, v) \<in> set parameter_dict" by (rule map_of_SomeD)
      with that have "map_of (rev parameter_dict) k = Some v" by (rule dict_lookup_rev)
      with Some show ?thesis by simp
    qed
  qed
  with stage show ?thesis by auto
qed

theorem setup_parameter_object_replaces_defaults_witness:
  "setup_parameter_object sample_defaults
      [(''rigid'', Some [(''Transform'', [''EulerTransform''])]), (''affine'', Some [])]
     = Inr [[''Transform'' \<mapsto> [''EulerTransform'']], Map.empty]
   \<and> [[''Transform'' \<mapsto> [''EulerTransform'']], Map.empty] ! 0
       = map_of [(''Transform'', [''EulerTransform''])]
   \<and> [[''Transform'' \<mapsto> [''EulerTransform'']], Map.empty :: parameter_map] ! 1 = Map.empty"
proof -
  let ?specs = "[(''rigid'', Some [(''Transform'', [''EulerTransform''])]), (''affine'', Some [])]"
  let ?po = "[[''Transform'' \<mapsto> [''EulerTransform'']], Map.empty :: parameter_map]"
  have run: "setup_parameter_object sample_defaults ?specs = Inr ?po"
    by (simp add: setup_parameter_object_def sample_defaults_def)
  have "?po ! 0 = map_of [(''Transform'', [''EulerTransform''])]"
    using setup_parameter_object_replaces_defaults
      [OF run, of 0 "[(''Transform'', [''EulerTransform''])]"] by simp
  moreover have "?po ! 1 = Map.empty"
    using setup_parameter_object_replaces_defaults [OF run, of 1 "[]"] by simp
  ultimately show ?thesis using run by simp
qed

text \<open>
  C4 as stated fails in its second half: a stage given no options does not get the
  engine's default map. With an empty dictionary the stage map is empty although the
  default map of the kind is not; with \<open>None\<close> in place of a dictionary the call raises.
\<close>

theorem setup_parameter_object_no_options_counterexample:
  "setup_parameter_object sample_defaults [(''rigid'', Some [])] = Inr [Map.empty]
   \<and> sample_defaults ''rigid''
       = Inr [''Transform'' \<mapsto> [''EulerTransform''], ''MaximumNumberOfIterations'' \<mapsto> [''256'']]
   \<and> [''Transform'' \<mapsto> [''EulerTransform''], ''MaximumNumberOfIterations'' \<mapsto> [''256'']]
       \<noteq> (Map.empty :: parameter_map)
   \<and> setup_parameter_object sample_defaults [(''rigid'', None)] = Inl AttributeError"
  by (simp add: setup_parameter_object_def sample_defaults_def)

text \<open>
  C5 (as the code has it). The call fails exactly when some stage cannot be built, and the
  error is that of the first such stage in list order: the engine's own exception with
  its diagnostic when the engine cannot resolve a default map for the kind, whatever
  options the stage carries (the default map is looked up before the options are read),
  and \<open>AttributeError\<close> when the kind resolves and the options are not a dictionary. It
  is never a \<open>ConfigurationError\<close>.
\<close>

theorem setup_parameter_object_fails_iff:
  "((setup_parameter_object GetDefault parameter_lists = Inl e)
      = (\<exists>earlier kind options later.
           parameter_lists = earlier @ (kind, options) # later \<and>
           (\<forall>s\<in>set earlier. \<not> isl (GetDefault (fst s)) \<and> snd s \<noteq> None) \<and>
           (case GetDefault kind of
              Inl diagnostic \<Rightarrow> e = EngineException diagnostic
            | Inr parameter_map \<Rightarrow> options = None \<and> e = AttributeError)))
   \<and> ((\<exists>e. setup_parameter_object GetDefault parameter_lists = Inl e)
      = (\<exists>s\<in>set parameter_lists. isl (GetDefault (fst s)) \<or> snd s = None))
   \<and> setup_parameter_object GetDefault parameter_lists \<noteq> Inl ConfigurationError"
  unfolding setup_parameter_object_def
  using setup_loop_Inl_iff [of GetDefault parameter_lists "[]" e]
    setup_loop_Inl [of GetDefault parameter_lists "[]"]
    setup_loop_not_configuration_error [of GetDefault parameter_lists "[]"]
  by (intro conjI)

theorem setup_parameter_object_fails_iff_witness:
  "setup_parameter_object sample_defaults
      [(''rigid'', Some [(''Transform'', [''EulerTransform''])]), (''unknown'', Some [(''Transform'', [''EulerTransform''])]),
       (''affine'', None)]
     = Inl (EngineException ''No default parameter map unknown'')
   \<and> setup_parameter_object sample_defaults [(''rigid'', Some [(''Transform'', [''EulerTransform''])]), (''affine'', None)]
     = Inl AttributeError"
proof -
  have first: "[(''rigid'', Some [(''Transform'', [''EulerTransform''])]), (''unknown'', Some [(''Transform'', [''EulerTransform''])]),
       (''affine'', None)]
      = [(''rigid'', Some [(''Transform'', [''EulerTransform''])])] @ (''unknown'', Some [(''Transform'', [''EulerTransform''])])
          # [(''affine'', None)] \<and>
    (\<forall>s\<in>set [(''rigid'', Some [(''Transform'', [''EulerTransform''])])]. \<not> isl (sample_defaults (fst s)) \<and> snd s \<noteq> None) \<and>
    (case sample_defaults ''unknown'' of
       Inl diagnostic \<Rightarrow>
         EngineException ''No default parameter map unknown'' = EngineException diagnostic
     | Inr parameter_map \<Rightarrow>
         Some [(''Transform'', [''EulerTransform''])] = None \<and>
         EngineException ''No default parameter map unknown'' = AttributeError)"
    by (simp add: sample_defaults_def)
  have second: "[(''rigid'', Some [(''Transform'', [''EulerTransform''])]), (''affine'', None)]
      = [(''rigid'', Some [(''Transform'', [''EulerTransform''])])] @ (''affine'', None) # [] \<and>
    (\<forall>s\<in>set [(''rigid'', Some [(''Transform'', [''EulerTransform''])])]. \<not> isl (sample_defaults (fst s)) \<and> snd s \<noteq> None) \<and>
    (case sample_defaults ''affine'' of
       Inl diagnostic \<Rightarrow> AttributeError = EngineException diagnostic
     | Inr parameter_map \<Rightarrow> None = None \<and> AttributeError = AttributeError)"
    by (simp add: sample_defaults_def)
  from first have "\<exists>earlier kind options later.
      [(''rigid'', Some [(''Transform'', [''EulerTransform''])]), (''unknown'', Some [(''Transform'', [''EulerTransform''])]),
       (''affine'', None)] = earlier @ (kind, options) # later \<and>
      (\<forall>s\<in>set earlier. \<not> isl (sample_defaults (fst s)) \<and> snd s \<noteq> None) \<and>
      (case sample_defaults kind of
         Inl diagnostic \<Rightarrow>
           EngineException ''No default parameter map unknown'' = EngineException diagnostic
       | Inr parameter_map \<Rightarrow>
           options = None \<and>
           EngineException ''No default parameter map unknown'' = AttributeError)"
    by - (rule exI [of _ "[(''rigid'', Some [(''Transform'', [''EulerTransform''])])]"], rule exI [of _ "''unknown''"],
          rule exI [of _ "Some [(''Transform'', [''EulerTransform''])]"],
          rule exI [of _ "[(''affine'', None)]"], assumption)
  then have one: "setup_parameter_object sample_defaults
      [(''rigid'', Some [(''Transform'', [''EulerTransform''])]), (''unknown'', Some [(''Transform'', [''EulerTransform''])]),
       (''affine'', None)]
     = Inl (EngineException ''No default parameter map unknown'')"
    using setup_parameter_object_fails_iff [of sample_defaults
        "[(''rigid'', Some [(''Transform'', [''EulerTransform''])]), (''unknown'', Some [(''Transform'', [''EulerTransform''])]),
          (''affine'', None)]"
        "EngineException ''No default parameter map unknown''"]
    by (simp only:)
  from second have "\<exists>earlier kind options later.
      [(''rigid'', Some [(''Transform'', [''EulerTransform''])]), (''affine'', None)] = earlier @ (kind, options) # later \<and>
      (\<forall>s\<in>set earlier. \<not> isl (sample_defaults (fst s)) \<and> snd s \<noteq> None) \<and>
      (case sample_defaults kind of
         Inl diagnostic \<Rightarrow> AttributeError = EngineException diagnostic
       | Inr parameter_map \<Rightarrow> options = None \<and> AttributeError = AttributeError)"
    by - (rule exI [of _ "[(''rigid'', Some [(''Transform'', [''EulerTransform''])])]"], rule exI [of _ "''affine''"],
          rule exI [of _ None], rule exI [of _ "[]"], assumption)
  then have two: "setup_parameter_object sample_defaults [(''rigid'', Some [(''Transform'', [''EulerTransform''])]), (''affine'', None)]
     = Inl AttributeError"
    using setup_parameter_object_fails_iff [of sample_defaults
        "[(''rigid'', Some [(''Transform'', [''EulerTransform''])]), (''affine'', None)]" AttributeError]
    by (simp only:)
  from one two show ?thesis by (rule conjI)
qed

text \<open>
  C5 as stated fails: for a kind the engine does not know, an explicit option map does
  not avoid the failure, and what is raised is the engine's exception.
\<close>

theorem setup_parameter_object_unknown_kind_counterexample:
  "setup_parameter_object sample_defaults
       [(''unknown'', Some [(''Transform'', [''EulerTransform''])])]
     = Inl (EngineException ''No default parameter map unknown'')
   \<and> EngineException ''No default parameter map unknown'' \<noteq> ConfigurationError"
  by (simp add: setup_parameter_object_def sample_defaults_def)

text \<open>
  C6. When the engine resolves a default map for the kind of every spec and every spec
  carries a dictionary, the call returns a parameter object with one map per spec, in
  input order (the map at position \<open>i\<close> is built from the dictionary at position \<open>i\<close>,
  also when kinds repeat), and a stage whose dictionary has an entry \<open>Transform\<close> holds
  that entry. The empty list yields the parameter object with no stage.
\<close>

theorem setup_parameter_object_stages:
  assumes "\<forall>s\<in>set parameter_lists. \<not> isl (GetDefault (fst s)) \<and> snd s \<noteq> None"
  shows "\<exists>po. setup_parameter_object GetDefault parameter_lists = Inr po
    \<and> length po = length parameter_lists
    \<and> (\<forall>i<length parameter_lists.
          po ! i = map_of (rev (the (snd (parameter_lists ! i)))))
    \<and> (\<forall>i<length parameter_lists. \<forall>v.
          distinct (map fst (the (snd (parameter_lists ! i)))) \<and>
          (''Transform'', v) \<in> set (the (snd (parameter_lists ! i)))
          \<longrightarrow> (po ! i) ''Transform'' = Some v)
    \<and> setup_parameter_object GetDefault [] = Inr []"
proof -
  let ?po = "map (\<lambda>s. map_of (rev (the (snd s)))) parameter_lists"
  have "setup_parameter_object GetDefault parameter_lists = Inr ?po"
    using assms by (simp add: setup_parameter_object_Inr)
  moreover have "length ?po = length parameter_lists" by simp
  moreover have "\<forall>i<length parameter_lists.
      ?po ! i = map_of (rev (the (snd (parameter_lists ! i))))" by simp
  moreover have "\<forall>i<length parameter_lists. \<forall>v.
          distinct (map fst (the (snd (parameter_lists ! i)))) \<and>
          (''Transform'', v) \<in> set (the (snd (parameter_lists ! i)))
          \<longrightarrow> (?po ! i) ''Transform'' = Some v"
    by (simp add: dict_lookup_rev)
  moreover have "setup_parameter_object GetDefault [] = Inr []"
    by (simp add: setup_parameter_object_def)
  ultimately show ?thesis by blast
qed

theorem setup_parameter_object_stages_witness:
  "\<exists>po. setup_parameter_object sample_defaults
        [(''rigid'', Some [(''Transform'', [''EulerTransform''])]),
         (''rigid'', Some [(''Transform'', [''EulerTransform''])]),
         (''bspline'', Some [(''Transform'', [''BSplineTransform''])])] = Inr po
     \<and> length po = 3
     \<and> (po ! 0) ''Transform'' = Some [''EulerTransform'']
     \<and> (po ! 1) ''Transform'' = Some [''EulerTransform'']
     \<and> (po ! 2) ''Transform'' = Some [''BSplineTransform'']"
proof -
  let ?specs = "[(''rigid'', Some [(''Transform'', [''EulerTransform''])]),
         (''rigid'', Some [(''Transform'', [''EulerTransform''])]),
         (''bspline'', Some [(''Transform'', [''BSplineTransform''])])]"
  have "\<forall>s\<in>set ?specs. \<not> isl (sample_defaults (fst s)) \<and> snd s \<noteq> None"
    by (simp add: sample_defaults_def)
  from setup_parameter_object_stages [OF this]
  obtain po where po: "setup_parameter_object sample_defaults ?specs = Inr po"
      "length po = length ?specs"
      "\<forall>i<length ?specs. po ! i = map_of (rev (the (snd (?specs ! i))))"
    by blast
  have "po ! 0 = map_of (rev (the (snd (?specs ! 0))))" using po(3) by simp
  moreover have "po ! 1 = map_of (rev (the (snd (?specs ! 1))))" using po(3) by simp
  moreover have "po ! 2 = map_of (rev (the (snd (?specs ! 2))))" using po(3) by simp
  ultimately show ?thesis using po(1,2) by simp
qed

section \<open>Properties of run_registration\<close>

lemmas sample_run =
  run_registration_def compute_results_def setup_parameter_object_def sample_engine_def
  sample_defaults_def GetParameter_def SetParameter_def sample_stage_def
  write_deformation_field_def unlink_def sample_field_file_def two_stage_lists_def
  index_axis2_def imwrite_def path_join_def sample_field_def sample_field_3d_def
  stray_artifact_def upt_rec

lemma compute_results_Inr:
  "(compute_results eng a m an pl od fs = (Inr (ri, tp, an', df), fs3)) =
    (\<exists>av mv elx po rtp fs1 t fs2.
       GetImageViewFromArray eng a = Inr av \<and>
       GetImageViewFromArray eng m = Inr mv \<and>
       ElastixRegistrationMethod_New eng mv av = Inr elx \<and>
       setup_parameter_object (GetDefaultParameterMap eng) pl = Inr po \<and>
       UpdateLargestPossibleRegion eng elx po od fs = (Inr (ri, rtp), fs1) \<and>
       GetParameter rtp 0 ''FinalBSplineInterpolationOrder'' = Inr t \<and>
       transformix_filter eng an
         (SetParameter ''FinalBSplineInterpolationOrder'' [''0''] rtp) fs1 = (Inr an', fs2) \<and>
       tp = SetParameter ''FinalBSplineInterpolationOrder'' t
              (SetParameter ''FinalBSplineInterpolationOrder'' [''0''] rtp) \<and>
       TransformixFilter eng mv tp od fs2 = (Inr df, fs3))"
  unfolding compute_results_def
  by (auto simp: Let_def split: sum.splits prod.splits)

lemma run_registration_Inr:
  "(run_registration eng a m an pl od fs = (Inr r, fs4)) =
     (\<exists>fs3. compute_results eng a m an pl od fs = (Inr r, fs3) \<and>
        write_deformation_field od (snd (snd (snd r))) fs3 = (Inr (), fs4))"
  unfolding run_registration_def
  by (auto split: sum.splits prod.splits)

lemma run_registration_Inl:
  "compute_results eng a m an pl od fs = (Inl e, fs3) \<Longrightarrow>
     run_registration eng a m an pl od fs = (Inl e, fs3)"
  by (simp add: run_registration_def)

lemma path_join_eq: "(path_join d x = path_join d y) = (x = y)"
  by (simp add: path_join_def)

lemma index_axis2_monotone:
  "3 \<le> length (shape df) \<Longrightarrow> 2 \<le> shape df ! 2 \<Longrightarrow>
     (\<exists>s1. index_axis2 1 df = Inr s1) \<and> (\<exists>s0. index_axis2 0 df = Inr s0)"
  by (auto simp: index_axis2_def split: list.splits)

lemma write_deformation_field_Inr:
  "write_deformation_field od df fs3 = (Inr u, fs4) \<Longrightarrow> fs4 (stray_artifact od) = None"
  unfolding write_deformation_field_def stray_artifact_def unlink_def
  by (auto simp: Let_def split: option.splits sum.splits if_splits)

lemma write_deformation_field_missing:
  assumes "fs3 (stray_artifact od) = None"
    and "od \<noteq> None \<longrightarrow> 3 \<le> length (shape df) \<and> 2 \<le> shape df ! 2"
  shows "fst (write_deformation_field od df fs3) = Inl (FileNotFoundError (stray_artifact od))"
proof (cases od)
  case None
  with assms show ?thesis
    by (simp add: write_deformation_field_def stray_artifact_def unlink_def)
next
  case (Some directory)
  with assms(2) obtain s1 s0 where "index_axis2 1 df = Inr s1" "index_axis2 0 df = Inr s0"
    using index_axis2_monotone [of df] by auto
  with Some assms(1) show ?thesis
    by (simp add: write_deformation_field_def stray_artifact_def unlink_def Let_def imwrite_def
        path_join_eq)
qed

lemma SetParameter_twice:
  "SetParameter key v (SetParameter key w transform) = SetParameter key v transform"
  by (simp add: SetParameter_def comp_def)

text \<open>
  What the save and restore of lines 87 to 101 amounts to: the transform returned is the
  engine's transform with the interpolation order of every stage overwritten by the
  order stage 0 held, and the annotation image was transformed with every stage at
  order 0.
\<close>

lemma run_registration_returned_transform:
  assumes "run_registration eng a m an pl od fs = (Inr (ri, tp, an', df), fs4)"
  shows "\<exists>elx po rtp fs1 fs2 t.
     UpdateLargestPossibleRegion eng elx po od fs = (Inr (ri, rtp), fs1) \<and>
     GetParameter rtp 0 ''FinalBSplineInterpolationOrder'' = Inr t \<and>
     transformix_filter eng an (SetParameter ''FinalBSplineInterpolationOrder'' [''0''] rtp) fs1
       = (Inr an', fs2) \<and>
     tp = SetParameter ''FinalBSplineInterpolationOrder'' t rtp"
proof -
  from assms obtain fs3 where "compute_results eng a m an pl od fs = (Inr (ri, tp, an', df), fs3)"
    by (auto simp: run_registration_Inr)
  then show ?thesis
    unfolding compute_results_Inr SetParameter_twice by blast
qed

text \<open>
  C1. The override and the restore both write every stage, but only the order of stage 0
  is saved. With a two-stage parameter list whose stages ask for orders 3 and 1, the
  transform the engine produces holds 3 and 1, and the transform run_registration
  returns holds 3 and 3: stage 1 is not restored to the value it held.
\<close>

theorem run_registration_order_not_restored:
  "registration_orders sample_engine 2 2 two_stage_lists None Map.empty
     = Some [Some [''3''], Some [''1'']]
   \<and> returned_orders (run_registration sample_engine 2 2 2 two_stage_lists None Map.empty)
     = Some [Some [''3''], Some [''3'']]"
  by (simp add: sample_run registration_orders_def returned_orders_def interpolation_orders_def)

text \<open>
  C2 (as the code has it). When run_registration returns, the deformation field handed
  to the caller is the field the engine computed from the moving view and the returned
  transform, unchanged, in the engine's own axis order.
\<close>

theorem run_registration_returns_engine_field:
  assumes "run_registration eng atlas_image moving_image annotation_image parameter_lists
             output_directory fs
           = (Inr (result_image, transform, annotation, deformation_field), fs4)"
  shows "\<exists>moving_view fs2 fs3.
           GetImageViewFromArray eng moving_image = Inr moving_view \<and>
           TransformixFilter eng moving_view transform output_directory fs2
             = (Inr deformation_field, fs3)"
proof -
  from assms obtain fs3 where
    "compute_results eng atlas_image moving_image annotation_image parameter_lists
          output_directory fs = (Inr (result_image, transform, annotation, deformation_field), fs3)"
    by (auto simp: run_registration_Inr)
  then show ?thesis
    unfolding compute_results_Inr by blast
qed

theorem run_registration_returns_engine_field_witness:
  "\<exists>moving_view fs2 fs3.
      GetImageViewFromArray sample_engine 2 = Inr moving_view \<and>
      TransformixFilter sample_engine moving_view
        (fst (snd (projr (fst (run_registration sample_engine 2 2 2 two_stage_lists
                                 (Some ''out'') Map.empty)))))
        (Some ''out'') fs2
      = (Inr \<lparr>shape = [1, 2, 2], elements = [10, 20, 30, 40]\<rparr>, fs3)"
proof -
  let ?r = "run_registration sample_engine 2 2 2 two_stage_lists (Some ''out'') Map.empty"
  have run: "?r = (Inr (2, fst (snd (projr (fst ?r))), 2,
                        \<lparr>shape = [1, 2, 2], elements = [10, 20, 30, 40]\<rparr>), snd ?r)"
    by (simp add: sample_run)
  show ?thesis
    using run_registration_returns_engine_field [OF run] .
qed

text \<open>
  C2 as stated fails: the returned field is not permuted. On the sample engine, whose
  field holds the vectors (10, 20) and (30, 40), the caller receives exactly these
  vectors, not (20, 10) and (40, 30).
\<close>

theorem run_registration_field_not_permuted:
  "returned_field (run_registration sample_engine 2 2 2 two_stage_lists (Some ''out'') Map.empty)
     = Some \<lparr>shape = [1, 2, 2], elements = [10, 20, 30, 40]\<rparr>
   \<and> switch_axes \<lparr>shape = [1, 2, 2], elements = [10, 20, 30, 40 :: int]\<rparr>
     = \<lparr>shape = [1, 2, 2], elements = [20, 10, 40, 30]\<rparr>
   \<and> returned_field (run_registration sample_engine 2 2 2 two_stage_lists (Some ''out'') Map.empty)
     \<noteq> Some (switch_axes \<lparr>shape = [1, 2, 2], elements = [10, 20, 30, 40]\<rparr>)"
  by (simp add: sample_run returned_field_def switch_axes_def)

text \<open>
  C3 (as the code has it). In either mode, when run_registration returns its results the
  engine's default-named field file is absent from the place of that mode. The cleanup is
  not best-effort: when the results have been computed and that file does not exist, the
  call ends with \<open>FileNotFoundError\<close> in place of the results.
\<close>

theorem run_registration_cleanup:
  "(run_registration eng atlas_image moving_image annotation_image parameter_lists
        output_directory fs = (Inr results, fs4)
      \<longrightarrow> fs4 (stray_artifact output_directory) = None)
   \<and> (compute_results eng atlas_image moving_image annotation_image parameter_lists
          output_directory fs = (Inr results, fs3)
        \<and> fs3 (stray_artifact output_directory) = None
        \<and> (output_directory \<noteq> None \<longrightarrow>
             3 \<le> length (shape (snd (snd (snd results)))) \<and>
             2 \<le> shape (snd (snd (snd results))) ! 2)
      \<longrightarrow> fst (run_registration eng atlas_image moving_image annotation_image parameter_lists
                 output_directory fs)
            = Inl (FileNotFoundError (stray_artifact output_directory)))"
proof (intro conjI impI)
  assume "run_registration eng atlas_image moving_image annotation_image parameter_lists
        output_directory fs = (Inr results, fs4)"
  then show "fs4 (stray_artifact output_directory) = None"
    by (auto simp: run_registration_Inr dest: write_deformation_field_Inr)
next
  assume h: "compute_results eng atlas_image moving_image annotation_image parameter_lists
          output_directory fs = (Inr results, fs3)
        \<and> fs3 (stray_artifact output_directory) = None
        \<and> (output_directory \<noteq> None \<longrightarrow>
             3 \<le> length (shape (snd (snd (snd results)))) \<and>
             2 \<le> shape (snd (snd (snd results))) ! 2)"
  then have "fst (write_deformation_field output_directory (snd (snd (snd results))) fs3)
      = Inl (FileNotFoundError (stray_artifact output_directory))"
    by (intro write_deformation_field_missing) simp_all
  with h show "fst (run_registration eng atlas_image moving_image annotation_image
      parameter_lists output_directory fs)
        = Inl (FileNotFoundError (stray_artifact output_directory))"
    by (cases "write_deformation_field output_directory (snd (snd (snd results))) fs3")
       (simp add: run_registration_def)
qed

theorem run_registration_cleanup_witness:
  "returned_field (run_registration sample_engine 2 2 2 two_stage_lists (Some ''out'') Map.empty)
      = Some sample_field
   \<and> snd (run_registration sample_engine 2 2 2 two_stage_lists (Some ''out'') Map.empty)
       ''out/deformationField.tiff'' = None
   \<and> returned_field (run_registration sample_engine 2 2 2 two_stage_lists None Map.empty)
      = Some sample_field
   \<and> snd (run_registration sample_engine 2 2 2 two_stage_lists None Map.empty)
       ''deformationField.tiff'' = None
   \<and> fst (run_registration sample_engine 2 2 2 [(''affine'', Some [])] None Map.empty)
      = Inl (FileNotFoundError ''deformationField.tiff'')"
proof -
  let ?out = "run_registration sample_engine 2 2 2 two_stage_lists (Some ''out'') Map.empty"
  let ?cwd = "run_registration sample_engine 2 2 2 two_stage_lists None Map.empty"
  let ?mhd = "compute_results sample_engine 2 2 2 [(''affine'', Some [])] None Map.empty"
  have out: "?out = (Inr (projr (fst ?out)), snd ?out)"
    by (simp add: sample_run)
  have cwd: "?cwd = (Inr (projr (fst ?cwd)), snd ?cwd)"
    by (simp add: sample_run)
  have mhd: "?mhd = (Inr (projr (fst ?mhd)), snd ?mhd)
      \<and> snd ?mhd (stray_artifact None) = None
      \<and> (None \<noteq> (None :: string option) \<longrightarrow>
           3 \<le> length (shape (snd (snd (snd (projr (fst ?mhd)))))) \<and>
           2 \<le> shape (snd (snd (snd (projr (fst ?mhd))))) ! 2)"
    by (simp add: sample_run)
  have "snd ?out (stray_artifact (Some ''out'')) = None"
    using run_registration_cleanup [of sample_engine 2 2 2 two_stage_lists "Some ''out''"
        Map.empty "projr (fst ?out)" "snd ?out"] out by blast
  moreover have "snd ?cwd (stray_artifact None) = None"
    using run_registration_cleanup [of sample_engine 2 2 2 two_stage_lists None
        Map.empty "projr (fst ?cwd)" "snd ?cwd"] cwd by blast
  moreover have "fst (run_registration sample_engine 2 2 2 [(''affine'', Some [])] None Map.empty)
      = Inl (FileNotFoundError (stray_artifact None))"
    using run_registration_cleanup [of sample_engine 2 2 2 "[(''affine'', Some [])]" None
        Map.empty "projr (fst ?mhd)" _ "snd ?mhd"] mhd by blast
  moreover have "returned_field ?out = Some sample_field"
    by (simp add: sample_run returned_field_def)
  moreover have "returned_field ?cwd = Some sample_field"
    by (simp add: sample_run returned_field_def)
  ultimately show ?thesis
    by (simp add: stray_artifact_def path_join_def)
qed

text \<open>
  C3 as stated fails in its second half. A parameter list that does not ask for tiff
  output makes the sample engine write \<^verbatim>\<open>deformationField.mhd\<close>; the results are
  computed, the unlink of the missing \<^verbatim>\<open>deformationField.tiff\<close> raises, and the call
  fails.
\<close>

theorem run_registration_cleanup_counterexample:
  "returned_field (compute_results sample_engine 2 2 2 [(''affine'', Some [])] None Map.empty)
      = Some sample_field
   \<and> run_registration sample_engine 2 2 2 [(''affine'', Some [])] None Map.empty
      = (Inl (FileNotFoundError ''deformationField.tiff''),
         [''deformationField.mhd'' \<mapsto> EngineArtifact])"
  by (simp add: sample_run returned_field_def)

lemma setup_parameter_object_lookup_failure:
  assumes "parameter_lists = earlier @ (kind, options) # later"
    and "\<forall>s\<in>set earlier. \<not> isl (GetDefault (fst s)) \<and> snd s \<noteq> None"
    and "GetDefault kind = Inl diagnostic"
  shows "setup_parameter_object GetDefault parameter_lists = Inl (EngineException diagnostic)"
proof -
  from assms have "parameter_lists = earlier @ (kind, options) # later \<and>
      (\<forall>s\<in>set earlier. \<not> isl (GetDefault (fst s)) \<and> snd s \<noteq> None) \<and>
      (case GetDefault kind of
         Inl d \<Rightarrow> EngineException diagnostic = EngineException d
       | Inr parameter_map \<Rightarrow> options = None \<and> EngineException diagnostic = AttributeError)"
    by simp
  then have "\<exists>earlier kind options later.
      parameter_lists = earlier @ (kind, options) # later \<and>
      (\<forall>s\<in>set earlier. \<not> isl (GetDefault (fst s)) \<and> snd s \<noteq> None) \<and>
      (case GetDefault kind of
         Inl d \<Rightarrow> EngineException diagnostic = EngineException d
       | Inr parameter_map \<Rightarrow> options = None \<and> EngineException diagnostic = AttributeError)"
    by - (rule exI [of _ earlier], rule exI [of _ kind], rule exI [of _ options],
          rule exI [of _ later], assumption)
  then show ?thesis
    by (simp only: setup_parameter_object_def setup_loop_Inl_iff)
qed

text \<open>
  C7 (as the code has it). Every engine call of run_registration is listed with the
  calls that must have returned before it is reached: the two image conversions, the
  construction of the registration object, the lookup of a default map (for the first
  kind the engine cannot resolve), the registration itself, the read of the saved order,
  the transform of the annotation image and the computation of the deformation field.
  When the call raises, run_registration ends with that exception of the engine and its
  diagnostic, unchanged and unwrapped, and the files are as that call left them: nothing
  is retried and no later step runs. Conversely, when run_registration returns its
  results, every one of these calls has returned: no failure is swallowed.
\<close>

theorem run_registration_engine_failure:
  "(GetImageViewFromArray eng atlas_image = Inl diagnostic \<longrightarrow>
      run_registration eng atlas_image moving_image annotation_image parameter_lists
        output_directory fs = (Inl (EngineException diagnostic), fs))
   \<and> (GetImageViewFromArray eng atlas_image = Inr atlas_view \<longrightarrow>
      (GetImageViewFromArray eng moving_image = Inl diagnostic \<longrightarrow>
         run_registration eng atlas_image moving_image annotation_image parameter_lists
           output_directory fs = (Inl (EngineException diagnostic), fs))
    \<and> (GetImageViewFromArray eng moving_image = Inr moving_view \<longrightarrow>
      (ElastixRegistrationMethod_New eng moving_view atlas_view = Inl diagnostic \<longrightarrow>
         run_registration eng atlas_image moving_image annotation_image parameter_lists
           output_directory fs = (Inl (EngineException diagnostic), fs))
    \<and> (ElastixRegistrationMethod_New eng moving_view atlas_view = Inr elastix_object \<longrightarrow>
      (parameter_lists = earlier @ (kind, options) # later
         \<and> (\<forall>s\<in>set earlier. \<not> isl (GetDefaultParameterMap eng (fst s)) \<and> snd s \<noteq> None)
         \<and> GetDefaultParameterMap eng kind = Inl diagnostic \<longrightarrow>
         run_registration eng atlas_image moving_image annotation_image parameter_lists
           output_directory fs = (Inl (EngineException diagnostic), fs))
    \<and> (setup_parameter_object (GetDefaultParameterMap eng) parameter_lists
          = Inr parameter_object \<longrightarrow>
      (UpdateLargestPossibleRegion eng elastix_object parameter_object output_directory fs
          = (Inl diagnostic, fs1) \<longrightarrow>
         run_registration eng atlas_image moving_image annotation_image parameter_lists
           output_directory fs = (Inl (EngineException diagnostic), fs1))
    \<and> (UpdateLargestPossibleRegion eng elastix_object parameter_object output_directory fs
          = (Inr (result_image, result_transform_parameters), fs1) \<longrightarrow>
      (GetParameter result_transform_parameters 0 ''FinalBSplineInterpolationOrder'' = Inl e \<longrightarrow>
         run_registration eng atlas_image moving_image annotation_image parameter_lists
           output_directory fs = (Inl e, fs1))
    \<and> (GetParameter result_transform_parameters 0 ''FinalBSplineInterpolationOrder''
          = Inr temp_interp_order \<longrightarrow>
      (transformix_filter eng annotation_image
          (SetParameter ''FinalBSplineInterpolationOrder'' [''0'']
             result_transform_parameters) fs1 = (Inl diagnostic, fs2) \<longrightarrow>
         run_registration eng atlas_image moving_image annotation_image parameter_lists
           output_directory fs = (Inl (EngineException diagnostic), fs2))
    \<and> (transformix_filter eng annotation_image
          (SetParameter ''FinalBSplineInterpolationOrder'' [''0'']
             result_transform_parameters) fs1 = (Inr annotation_image_transformix, fs2) \<longrightarrow>
      (TransformixFilter eng moving_view
          (SetParameter ''FinalBSplineInterpolationOrder'' temp_interp_order
             (SetParameter ''FinalBSplineInterpolationOrder'' [''0'']
                result_transform_parameters)) output_directory fs2
          = (Inl diagnostic, fs3) \<longrightarrow>
         run_registration eng atlas_image moving_image annotation_image parameter_lists
           output_directory fs = (Inl (EngineException diagnostic), fs3)))))))))
   \<and> (run_registration eng atlas_image moving_image annotation_image parameter_lists
         output_directory fs = (Inr results, fs4) \<longrightarrow>
       (\<exists>av mv elx po ri rtp g1 t an g2 df g3.
          GetImageViewFromArray eng atlas_image = Inr av \<and>
          GetImageViewFromArray eng moving_image = Inr mv \<and>
          ElastixRegistrationMethod_New eng mv av = Inr elx \<and>
          setup_parameter_object (GetDefaultParameterMap eng) parameter_lists = Inr po \<and>
          UpdateLargestPossibleRegion eng elx po output_directory fs = (Inr (ri, rtp), g1) \<and>
          GetParameter rtp 0 ''FinalBSplineInterpolationOrder'' = Inr t \<and>
          transformix_filter eng annotation_image
            (SetParameter ''FinalBSplineInterpolationOrder'' [''0''] rtp) g1 = (Inr an, g2) \<and>
          TransformixFilter eng mv
            (SetParameter ''FinalBSplineInterpolationOrder'' t
               (SetParameter ''FinalBSplineInterpolationOrder'' [''0''] rtp))
            output_directory g2 = (Inr df, g3)))"
  apply (intro conjI impI)
  subgoal by (simp add: run_registration_def compute_results_def)
  subgoal by (simp add: run_registration_def compute_results_def)
  subgoal by (simp add: run_registration_def compute_results_def)
  subgoal
    by (elim conjE)
       (simp add: run_registration_def compute_results_def
          setup_parameter_object_lookup_failure)
  subgoal by (simp add: run_registration_def compute_results_def)
  subgoal by (simp add: run_registration_def compute_results_def)
  subgoal by (simp add: run_registration_def compute_results_def)
  subgoal by (simp add: run_registration_def compute_results_def)
  subgoal
    by (cases results) (auto simp: run_registration_Inr compute_results_Inr)
  done

theorem run_registration_engine_failure_witness:
  "run_registration sample_engine 5 2 2 two_stage_lists None Map.empty
     = (Inl (EngineException ''unsupported image dimension''), Map.empty)
   \<and> run_registration sample_engine 3 2 2 two_stage_lists (Some ''out'') Map.empty
     = (Inl (EngineException ''image dimensions do not match''), Map.empty)
   \<and> run_registration sample_engine 2 2 2
        [(''rigid'', Some [(''Transform'', [''EulerTransform''])]),
         (''unknown'', Some [(''Transform'', [''EulerTransform''])])] None Map.empty
     = (Inl (EngineException ''No default parameter map unknown''), Map.empty)
   \<and> run_registration sample_engine 2 2 2
        [(''rigid'', Some [(''MaximumNumberOfIterations'', [''0''])])] None Map.empty
     = (Inl (EngineException ''optimizer did not converge''), Map.empty)"
proof -
  have view5: "GetImageViewFromArray sample_engine 5 = Inl ''unsupported image dimension''"
    and view3: "GetImageViewFromArray sample_engine 3 = Inr 3"
    and view2: "GetImageViewFromArray sample_engine 2 = Inr 2"
    and new23: "ElastixRegistrationMethod_New sample_engine 2 3
                  = Inl ''image dimensions do not match''"
    and new22: "ElastixRegistrationMethod_New sample_engine 2 2 = Inr (2, 2)"
    by (simp_all add: sample_engine_def)
  have lookup:
    "[(''rigid'', Some [(''Transform'', [''EulerTransform''])]),
      (''unknown'', Some [(''Transform'', [''EulerTransform''])])]
       = [(''rigid'', Some [(''Transform'', [''EulerTransform''])])]
           @ (''unknown'', Some [(''Transform'', [''EulerTransform''])]) # []
     \<and> (\<forall>s\<in>set [(''rigid'', Some [(''Transform'', [''EulerTransform''])])].
           \<not> isl (GetDefaultParameterMap sample_engine (fst s)) \<and> snd s \<noteq> None)
     \<and> GetDefaultParameterMap sample_engine ''unknown''
           = Inl ''No default parameter map unknown''"
    by (simp add: sample_engine_def sample_defaults_def)
  have po_ok: "setup_parameter_object (GetDefaultParameterMap sample_engine)
        [(''rigid'', Some [(''MaximumNumberOfIterations'', [''0''])])]
      = Inr [[''MaximumNumberOfIterations'' \<mapsto> [''0'']]]"
    by (simp add: setup_parameter_object_def sample_engine_def sample_defaults_def)
  have update_fails: "UpdateLargestPossibleRegion sample_engine (2, 2)
        [[''MaximumNumberOfIterations'' \<mapsto> [''0'']]] None Map.empty
      = (Inl ''optimizer did not converge'', Map.empty)"
    by (simp add: sample_engine_def)
  note built = run_registration_engine_failure
    [THEN conjunct2, THEN conjunct1, THEN mp, OF view2, THEN conjunct2, THEN mp, OF view2,
     THEN conjunct2, THEN mp, OF new22]
  have "run_registration sample_engine 5 2 2 two_stage_lists None Map.empty
     = (Inl (EngineException ''unsupported image dimension''), Map.empty)"
    by (rule run_registration_engine_failure [THEN conjunct1, THEN mp, OF view5])
  moreover have "run_registration sample_engine 3 2 2 two_stage_lists (Some ''out'') Map.empty
     = (Inl (EngineException ''image dimensions do not match''), Map.empty)"
    by (rule run_registration_engine_failure
          [THEN conjunct2, THEN conjunct1, THEN mp, OF view3, THEN conjunct2, THEN mp,
           OF view2, THEN conjunct1, THEN mp, OF new23])
  moreover have "run_registration sample_engine 2 2 2
        [(''rigid'', Some [(''Transform'', [''EulerTransform''])]),
         (''unknown'', Some [(''Transform'', [''EulerTransform''])])] None Map.empty
     = (Inl (EngineException ''No default parameter map unknown''), Map.empty)"
    by (rule built [THEN conjunct1, THEN mp, OF lookup])
  moreover have "run_registration sample_engine 2 2 2
        [(''rigid'', Some [(''MaximumNumberOfIterations'', [''0''])])] None Map.empty
     = (Inl (EngineException ''optimizer did not converge''), Map.empty)"
    by (rule built [THEN conjunct2, THEN mp, OF po_ok, THEN conjunct1, THEN mp, OF update_fails])
  ultimately show ?thesis by (intro conjI)
qed

text \<open>
  C7 as stated fails: the failure is not surfaced as a \<open>RegistrationError\<close>; the engine's
  exception escapes as it is.
\<close>

theorem run_registration_raw_exception_counterexample:
  "fst (run_registration sample_engine 3 2 2 [(''affine'', Some [])] None Map.empty)
     = Inl (EngineException ''image dimensions do not match'')
   \<and> fst (run_registration sample_engine 3 2 2 [(''affine'', Some [])] None Map.empty)
     \<noteq> Inl (RegistrationError ''image dimensions do not match'')"
  by (simp add: sample_run)

lemma take_one_drop:
  assumes "j < length xs"
  shows "take (Suc 0) (drop j xs) = [xs ! j]"
proof -
  have "0 < length (drop j xs)" using assms by simp
  then have "take (Suc 0) (drop j xs) = take 0 (drop j xs) @ [drop j xs ! 0]"
    by (rule take_Suc_conv_app_nth)
  then show ?thesis using assms by simp
qed

text \<open>
  On an array of three axes, axis 2 is the last one: the slice \<^verbatim>\<open>[:, :, k]\<close> is the
  \<open>k\<close>-th component of the vectors.
\<close>

lemma index_axis2_component:
  assumes "shape a = [r, c, n]" and "length (elements a) = r * c * n" and "k < n"
  shows "index_axis2 k a = Inr (vector_component k a)"
proof -
  have bound: "cell * n + k < length (elements a)" if "cell < r * c" for cell
  proof -
    have "cell * n + k < cell * n + n" using assms(3) by simp
    also have "\<dots> = Suc cell * n" by simp
    also have "\<dots> \<le> (r * c) * n" using that by (intro mult_le_mono1) simp
    finally show ?thesis using assms(2) by simp
  qed
  have cells: "map (\<lambda>cell. take (Suc 0) (drop (cell * n + k) (elements a))) [0..<r * c]
      = map (\<lambda>cell. [elements a ! (cell * n + k)]) [0..<r * c]"
    by (rule map_cong) (simp_all add: take_one_drop bound)
  have "concat (map (\<lambda>cell. take (Suc 0) (drop (cell * n + k) (elements a))) [0..<r * c])
      = concat (map (\<lambda>cell. [elements a ! (cell * n + k)]) [0..<r * c])"
    by (simp only: cells)
  also have "\<dots> = map (\<lambda>cell. elements a ! (cell * n + k)) [0..<r * c]"
    by (rule concat_map_singleton)
  finally show ?thesis
    using assms by (simp add: index_axis2_def vector_component_def)
qed

text \<open>
  C9 (as the code has it). With an output directory, once the results are computed and
  the deformation field is that of two-dimensional images (shape rows, columns, 2),
  run_registration leaves \<^verbatim>\<open>deformation_field_0.tiff\<close> holding component 1 of the
  engine's field and \<^verbatim>\<open>deformation_field_1.tiff\<close> holding component 0, both in that
  directory. The engine orders the components of a displacement by its own axes, the
  reverse of the caller's: component 1 belongs to the caller's first axis. No other path
  changes, but for the engine's default-named file that the cleanup removes. When the
  results are not computed, run_registration writes nothing: the call ends with the
  error, the files as the failing step left them.
\<close>

theorem run_registration_component_files:
  "(compute_results eng atlas_image moving_image annotation_image parameter_lists
        (Some directory) fs = (Inr results, fs3)
      \<and> shape (snd (snd (snd results))) = [rows, columns, 2]
      \<and> length (elements (snd (snd (snd results)))) = rows * columns * 2
    \<longrightarrow>
      snd (run_registration eng atlas_image moving_image annotation_image parameter_lists
             (Some directory) fs) (path_join directory ''deformation_field_0.tiff'')
        = Some (Tiff (vector_component 1 (snd (snd (snd results)))))
      \<and> snd (run_registration eng atlas_image moving_image annotation_image parameter_lists
               (Some directory) fs) (path_join directory ''deformation_field_1.tiff'')
        = Some (Tiff (vector_component 0 (snd (snd (snd results)))))
      \<and> (\<forall>p. p \<noteq> path_join directory ''deformation_field_0.tiff'' \<and>
              p \<noteq> path_join directory ''deformation_field_1.tiff'' \<and>
              p \<noteq> path_join directory ''deformationField.tiff''
           \<longrightarrow> snd (run_registration eng atlas_image moving_image annotation_image
                      parameter_lists (Some directory) fs) p = fs3 p))
   \<and> (compute_results eng atlas_image moving_image annotation_image parameter_lists
        (Some directory) fs = (Inl e, fs3)
    \<longrightarrow> run_registration eng atlas_image moving_image annotation_image parameter_lists
          (Some directory) fs = (Inl e, fs3))"
proof (intro conjI impI)
  assume h: "compute_results eng atlas_image moving_image annotation_image parameter_lists
        (Some directory) fs = (Inr results, fs3)
      \<and> shape (snd (snd (snd results))) = [rows, columns, 2]
      \<and> length (elements (snd (snd (snd results)))) = rows * columns * 2"
  let ?field = "snd (snd (snd results))"
  let ?run = "run_registration eng atlas_image moving_image annotation_image parameter_lists
             (Some directory) fs"
  from h have s1: "index_axis2 1 ?field = Inr (vector_component 1 ?field)"
    by (intro index_axis2_component [of _ rows columns 2]) simp_all
  from h have s0: "index_axis2 0 ?field = Inr (vector_component 0 ?field)"
    by (intro index_axis2_component [of _ rows columns 2]) simp_all
  from h s1 s0 show "snd ?run (path_join directory ''deformation_field_0.tiff'')
        = Some (Tiff (vector_component 1 ?field))"
    by (simp add: run_registration_def write_deformation_field_def unlink_def Let_def
        imwrite_def path_join_eq split: prod.splits sum.splits if_splits)
  from h s1 s0 show "snd ?run (path_join directory ''deformation_field_1.tiff'')
        = Some (Tiff (vector_component 0 ?field))"
    by (simp add: run_registration_def write_deformation_field_def unlink_def Let_def
        imwrite_def path_join_eq split: prod.splits sum.splits if_splits)
  from h s1 s0 show "\<forall>p. p \<noteq> path_join directory ''deformation_field_0.tiff'' \<and>
              p \<noteq> path_join directory ''deformation_field_1.tiff'' \<and>
              p \<noteq> path_join directory ''deformationField.tiff''
           \<longrightarrow> snd ?run p = fs3 p"
    by (simp add: run_registration_def write_deformation_field_def unlink_def Let_def
        imwrite_def path_join_eq split: prod.splits sum.splits if_splits)
next
  assume "compute_results eng atlas_image moving_image annotation_image parameter_lists
        (Some directory) fs = (Inl e, fs3)"
  then show "run_registration eng atlas_image moving_image annotation_image parameter_lists
          (Some directory) fs = (Inl e, fs3)"
    by (rule run_registration_Inl)
qed

theorem run_registration_component_files_witness:
  "snd (run_registration sample_engine 2 2 2 two_stage_lists (Some ''out'') Map.empty)
       ''out/deformation_field_0.tiff'' = Some (Tiff \<lparr>shape = [1, 2], elements = [20, 40]\<rparr>)
   \<and> snd (run_registration sample_engine 2 2 2 two_stage_lists (Some ''out'') Map.empty)
       ''out/deformation_field_1.tiff'' = Some (Tiff \<lparr>shape = [1, 2], elements = [10, 30]\<rparr>)
   \<and> snd (run_registration sample_engine 2 2 2 two_stage_lists (Some ''out'') Map.empty)
       ''out/TransformParameters.0.txt'' = None
   \<and> run_registration sample_engine 3 2 2 two_stage_lists (Some ''out'') Map.empty
       = (Inl (EngineException ''image dimensions do not match''), Map.empty)"
proof -
  let ?c = "compute_results sample_engine 2 2 2 two_stage_lists (Some ''out'') Map.empty"
  let ?f = "compute_results sample_engine 3 2 2 two_stage_lists (Some ''out'') Map.empty"
  have c: "?c = (Inr (projr (fst ?c)), snd ?c)
      \<and> shape (snd (snd (snd (projr (fst ?c))))) = [1, 2, 2]
      \<and> length (elements (snd (snd (snd (projr (fst ?c)))))) = 1 * 2 * 2"
    by (simp add: sample_run)
  have field: "snd (snd (snd (projr (fst ?c)))) = sample_field"
    by (simp add: sample_run)
  have fs3: "snd ?c ''out/TransformParameters.0.txt'' = None"
    by (simp add: sample_run)
  have f: "?f = (Inl (EngineException ''image dimensions do not match''), Map.empty)"
    by (simp add: sample_run)
  have components: "vector_component 1 sample_field = \<lparr>shape = [1, 2], elements = [20, 40]\<rparr>"
    "vector_component 0 sample_field = \<lparr>shape = [1, 2], elements = [10, 30]\<rparr>"
    by (simp_all add: vector_component_def sample_field_def upt_rec)
  note files = run_registration_component_files [THEN conjunct1, THEN mp, OF c]
  note failed = run_registration_component_files [THEN conjunct2, THEN mp, OF f]
  show ?thesis
    using files failed field fs3 components
    by (simp add: path_join_def)
qed

text \<open>
  C9 as stated fails twice. A call whose engine raises writes neither file. And a call on
  three-dimensional images, whose field has four axes, writes slices at a fixed index of
  axis 2, which is a spatial axis there: \<^verbatim>\<open>deformation_field_0.tiff\<close> holds the whole
  vector (4, 5, 6) of the second cell, which is none of the three components (1, 4),
  (2, 5) and (3, 6) of the field.
\<close>

theorem run_registration_component_files_counterexample:
  "snd (run_registration sample_engine 3 2 2 two_stage_lists (Some ''out'') Map.empty)
       ''out/deformation_field_0.tiff'' = None
   \<and> returned_field (run_registration sample_engine 3 3 3 two_stage_lists (Some ''out'')
                        Map.empty)
       = Some \<lparr>shape = [1, 1, 2, 3], elements = [1, 2, 3, 4, 5, 6]\<rparr>
   \<and> snd (run_registration sample_engine 3 3 3 two_stage_lists (Some ''out'') Map.empty)
       ''out/deformation_field_0.tiff'' = Some (Tiff \<lparr>shape = [1, 1, 3], elements = [4, 5, 6]\<rparr>)
   \<and> vector_component 0 \<lparr>shape = [1, 1, 2, 3], elements = [1, 2, 3, 4, 5, 6 :: int]\<rparr>
       = \<lparr>shape = [1, 1, 2], elements = [1, 4]\<rparr>
   \<and> vector_component 1 \<lparr>shape = [1, 1, 2, 3], elements = [1, 2, 3, 4, 5, 6 :: int]\<rparr>
       = \<lparr>shape = [1, 1, 2], elements = [2, 5]\<rparr>
   \<and> vector_component 2 \<lparr>shape = [1, 1, 2, 3], elements = [1, 2, 3, 4, 5, 6 :: int]\<rparr>
       = \<lparr>shape = [1, 1, 2], elements = [3, 6]\<rparr>"
  by (simp add: sample_run returned_field_def vector_component_def)

section \<open>Properties of the inversion\<close>

text \<open>
  C8. The outcome of \<open>invert\<close> is that of one seeded registration run in which the
  reference image is both the fixed and the moving input and the forward transform is
  the initial transform: when that run succeeds, its image and its transform are
  returned as the inverted image and the inverse transform; when it reports
  non-convergence, the call fails with \<open>InversionError\<close>.
\<close>

theorem invert_contract:
  "(fst (invert eng reference_image spec_set forward_transform fs) = Inr inverted)
      = (fst (ElastixSeeded eng reference_image reference_image spec_set forward_transform fs)
           = Inr inverted)
   \<and> (fst (invert eng reference_image spec_set forward_transform fs)
          = Inl (InversionError diagnostic))
      = (fst (ElastixSeeded eng reference_image reference_image spec_set forward_transform fs)
           = Inl diagnostic \<and> non_convergence eng diagnostic)
   \<and> snd (invert eng reference_image spec_set forward_transform fs)
      = snd (ElastixSeeded eng reference_image reference_image spec_set forward_transform fs)"
  unfolding invert_def
  by (auto split: prod.splits sum.splits)

theorem invert_contract_witness:
  "fst (invert sample_inversion_engine 2 [Map.empty] [Map.empty] Map.empty)
     = Inr (2, [sample_stage Map.empty])
   \<and> fst (invert sample_inversion_engine 2 [Map.empty] [] Map.empty)
     = Inl (InversionError ''optimizer did not converge'')"
proof -
  have ok: "fst (ElastixSeeded sample_inversion_engine 2 2 [Map.empty] [Map.empty] Map.empty)
      = Inr (2, [sample_stage Map.empty])"
    by (simp add: sample_inversion_engine_def)
  have diverged: "fst (ElastixSeeded sample_inversion_engine 2 2 [Map.empty] [] Map.empty)
      = Inl ''optimizer did not converge''
      \<and> non_convergence sample_inversion_engine ''optimizer did not converge''"
    by (simp add: sample_inversion_engine_def)
  have "fst (invert sample_inversion_engine 2 [Map.empty] [Map.empty] Map.empty)
     = Inr (2, [sample_stage Map.empty])"
    using invert_contract [of sample_inversion_engine 2 "[Map.empty]" "[Map.empty]" Map.empty
        "(2, [sample_stage Map.empty])"] ok by blast
  moreover have "fst (invert sample_inversion_engine 2 [Map.empty] [] Map.empty)
     = Inl (InversionError ''optimizer did not converge'')"
    using invert_contract [of sample_inversion_engine 2 "[Map.empty]" "[]" Map.empty _
        "''optimizer did not converge''"] diverged by blast
  ultimately show ?thesis by simp
qed

section \<open>Properties of the adjustment form\<close>

lemma init_configured: "configured init_view"
  by (simp add: configured_def init_view_def setRange_def setRange_double_def setSingleStep_def
      QSpinBox_def QDoubleSpinBox_def)

lemma change_x_configured:
  "configured view \<Longrightarrow>
     configured (fst (change_x v view)) \<and> list_all signal_in_range (snd (change_x v view))"
  by (simp add: configured_def change_x_def setValue_def Let_def on_adjust_image_def)

lemma change_y_configured:
  "configured view \<Longrightarrow>
     configured (fst (change_y v view)) \<and> list_all signal_in_range (snd (change_y v view))"
  by (simp add: configured_def change_y_def setValue_def Let_def on_adjust_image_def)

lemma change_rotate_configured:
  "configured view \<Longrightarrow>
     configured (fst (change_rotate v view)) \<and>
     list_all signal_in_range (snd (change_rotate v view))"
  by (simp add: configured_def change_rotate_def setValue_double_def Let_def on_adjust_image_def)

lemma reset_configured:
  "configured view \<Longrightarrow>
     configured (fst (on_reset_image_button_click view)) \<and>
     list_all signal_in_range (snd (on_reset_image_button_click view))"
  by (simp add: on_reset_image_button_click_def Let_def change_x_configured change_y_configured
      change_rotate_configured)

lemma user_step_configured:
  "configured view \<Longrightarrow>
     configured (fst (user_step view a)) \<and> list_all signal_in_range (snd (user_step view a))"
  by (cases a)
     (simp_all add: change_x_configured change_y_configured change_rotate_configured
        reset_configured)

lemma user_session_configured:
  "configured view \<Longrightarrow>
     configured (fst (user_session view actions)) \<and>
     list_all signal_in_range (snd (user_session view actions))"
  by (induction actions arbitrary: view) (simp_all add: Let_def user_step_configured)

lemma user_step_current_values:
  "a \<noteq> ClickReset \<Longrightarrow>
     snd (user_step view a) = [] \<or>
     snd (user_step view a) = [on_adjust_image (fst (user_step view a))]"
  by (cases a) (simp_all add: change_x_def change_y_def change_rotate_def Let_def)

lemma change_x_clamps:
  assumes "configured view"
  shows "sb_value (adjust_moving_image_x (fst (change_x v view))) = max (- 2000) (min 2000 v)
    \<and> snd (change_x v view)
        = (if max (- 2000) (min 2000 v) = sb_value (adjust_moving_image_x view) then []
           else [adjust_image_signal (max (- 2000) (min 2000 v))
                   (sb_value (adjust_moving_image_y view))
                   (dsb_value (adjust_moving_image_rotate view))])"
  using assms
  by (simp add: configured_def change_x_def setValue_def Let_def on_adjust_image_def)

lemma change_y_clamps:
  assumes "configured view"
  shows "sb_value (adjust_moving_image_y (fst (change_y v view))) = max (- 2000) (min 2000 v)
    \<and> snd (change_y v view)
        = (if max (- 2000) (min 2000 v) = sb_value (adjust_moving_image_y view) then []
           else [adjust_image_signal (sb_value (adjust_moving_image_x view))
                   (max (- 2000) (min 2000 v))
                   (dsb_value (adjust_moving_image_rotate view))])"
  using assms
  by (simp add: configured_def change_y_def setValue_def Let_def on_adjust_image_def)

lemma change_rotate_clamps:
  assumes "configured view"
  shows "dsb_value (adjust_moving_image_rotate (fst (change_rotate v view)))
        = max (- 360) (min 360 (round_decimals 2 v))
    \<and> snd (change_rotate v view)
        = (if max (- 360) (min 360 (round_decimals 2 v))
                = dsb_value (adjust_moving_image_rotate view) then []
           else [adjust_image_signal (sb_value (adjust_moving_image_x view))
                   (sb_value (adjust_moving_image_y view))
                   (max (- 360) (min 360 (round_decimals 2 v)))])"
  using assms
  by (simp add: configured_def change_rotate_def setValue_double_def Let_def
      on_adjust_image_def)

lemma reset_trace:
  assumes "configured view"
  shows "sb_value (adjust_moving_image_x (fst (on_reset_image_button_click view))) = 0
    \<and> sb_value (adjust_moving_image_y (fst (on_reset_image_button_click view))) = 0
    \<and> dsb_value (adjust_moving_image_rotate (fst (on_reset_image_button_click view))) = 0
    \<and> snd (on_reset_image_button_click view)
        = (if sb_value (adjust_moving_image_x view) = 0 then []
           else [adjust_image_signal 0 (sb_value (adjust_moving_image_y view))
                   (dsb_value (adjust_moving_image_rotate view))])
          @ (if sb_value (adjust_moving_image_y view) = 0 then []
             else [adjust_image_signal 0 0 (dsb_value (adjust_moving_image_rotate view))])
          @ (if dsb_value (adjust_moving_image_rotate view) = 0 then []
             else [adjust_image_signal 0 0 0])
          @ [reset_image_signal]"
  using assms
  by (auto simp: configured_def on_reset_image_button_click_def change_x_def change_y_def
      change_rotate_def setValue_def setValue_double_def Let_def on_adjust_image_def
      round_decimals_def)

text \<open>
  C10. In every session of user actions on the freshly built form:
  \<^item> every adjustment signal emitted carries an x offset and a y offset between -2000 and
    2000 and a rotation between -360 and 360;
  \<^item> a value \<open>v\<close> arriving at the x or the y control leaves that control at \<open>v\<close> clamped
    to -2000 and 2000, and a value arriving at the rotation control leaves it at the
    value (rounded to the two decimals of the control) clamped to -360 and 360;
  \<^item> such an action emits nothing when the control's value does not change, and
    otherwise one signal carrying the new value of that control and the current values
    of the two others, whichever control it was;
  \<^item> a step of the rotation control by \<open>n\<close> is the arrival of its value plus \<open>n\<close> times
    0.5, and a step of an offset control by \<open>n\<close> the arrival of its value plus \<open>n\<close>;
  \<^item> a click on the reset button leaves the three controls at 0 and emits, for each
    control that was not at 0, in the order x, y, rotation, one signal carrying the
    values the three controls hold at that moment, and then the reset signal.
\<close>

theorem adjust_image_signal_in_range:
  assumes "user_session init_view actions = (view, signals)"
  shows "(\<forall>x y r. adjust_image_signal x y r \<in> set signals \<longrightarrow>
            - 2000 \<le> x \<and> x \<le> 2000 \<and> - 2000 \<le> y \<and> y \<le> 2000 \<and> - 360 \<le> r \<and> r \<le> 360)
     \<and> (\<forall>v. sb_value (adjust_moving_image_x (fst (user_step view (EditX v))))
               = max (- 2000) (min 2000 v)
           \<and> snd (user_step view (EditX v))
               = (if max (- 2000) (min 2000 v) = sb_value (adjust_moving_image_x view) then []
                  else [adjust_image_signal (max (- 2000) (min 2000 v))
                          (sb_value (adjust_moving_image_y view))
                          (dsb_value (adjust_moving_image_rotate view))]))
     \<and> (\<forall>v. sb_value (adjust_moving_image_y (fst (user_step view (EditY v))))
               = max (- 2000) (min 2000 v)
           \<and> snd (user_step view (EditY v))
               = (if max (- 2000) (min 2000 v) = sb_value (adjust_moving_image_y view) then []
                  else [adjust_image_signal (sb_value (adjust_moving_image_x view))
                          (max (- 2000) (min 2000 v))
                          (dsb_value (adjust_moving_image_rotate view))]))
     \<and> (\<forall>v. dsb_value (adjust_moving_image_rotate (fst (user_step view (EditRotate v))))
               = max (- 360) (min 360 (round_decimals 2 v))
           \<and> snd (user_step view (EditRotate v))
               = (if max (- 360) (min 360 (round_decimals 2 v))
                       = dsb_value (adjust_moving_image_rotate view) then []
                  else [adjust_image_signal (sb_value (adjust_moving_image_x view))
                          (sb_value (adjust_moving_image_y view))
                          (max (- 360) (min 360 (round_decimals 2 v)))]))
     \<and> (\<forall>n. user_step view (StepRotate n)
               = user_step view
                   (EditRotate (dsb_value (adjust_moving_image_rotate view)
                                  + real_of_int n * (1 / 2)))
           \<and> user_step view (StepX n)
               = user_step view (EditX (sb_value (adjust_moving_image_x view) + n))
           \<and> user_step view (StepY n)
               = user_step view (EditY (sb_value (adjust_moving_image_y view) + n)))
     \<and> sb_value (adjust_moving_image_x (fst (user_step view ClickReset))) = 0
     \<and> sb_value (adjust_moving_image_y (fst (user_step view ClickReset))) = 0
     \<and> dsb_value (adjust_moving_image_rotate (fst (user_step view ClickReset))) = 0
     \<and> snd (user_step view ClickReset)
         = (if sb_value (adjust_moving_image_x view) = 0 then []
            else [adjust_image_signal 0 (sb_value (adjust_moving_image_y view))
                    (dsb_value (adjust_moving_image_rotate view))])
           @ (if sb_value (adjust_moving_image_y view) = 0 then []
              else [adjust_image_signal 0 0 (dsb_value (adjust_moving_image_rotate view))])
           @ (if dsb_value (adjust_moving_image_rotate view) = 0 then []
              else [adjust_image_signal 0 0 0])
           @ [reset_image_signal]"
proof -
  have inv: "configured view \<and> list_all signal_in_range signals"
    using user_session_configured [OF init_configured, of actions] assms by simp
  have bounds: "- 2000 \<le> x \<and> x \<le> 2000 \<and> - 2000 \<le> y \<and> y \<le> 2000 \<and> - 360 \<le> r \<and> r \<le> 360"
    if "adjust_image_signal x y r \<in> set signals" for x y r
  proof -
    from inv have "\<forall>s\<in>set signals. signal_in_range s"
      by (simp add: list_all_iff)
    with that have "signal_in_range (adjust_image_signal x y r)" by blast
    then show ?thesis by simp
  qed
  have on_x: "sb_value (adjust_moving_image_x (fst (user_step view (EditX v))))
               = max (- 2000) (min 2000 v)
           \<and> snd (user_step view (EditX v))
               = (if max (- 2000) (min 2000 v) = sb_value (adjust_moving_image_x view) then []
                  else [adjust_image_signal (max (- 2000) (min 2000 v))
                          (sb_value (adjust_moving_image_y view))
                          (dsb_value (adjust_moving_image_rotate view))])" for v
    using change_x_clamps [of view v] inv by simp
  have on_y: "sb_value (adjust_moving_image_y (fst (user_step view (EditY v))))
               = max (- 2000) (min 2000 v)
           \<and> snd (user_step view (EditY v))
               = (if max (- 2000) (min 2000 v) = sb_value (adjust_moving_image_y view) then []
                  else [adjust_image_signal (sb_value (adjust_moving_image_x view))
                          (max (- 2000) (min 2000 v))
                          (dsb_value (adjust_moving_image_rotate view))])" for v
    using change_y_clamps [of view v] inv by simp
  have on_rotate: "dsb_value (adjust_moving_image_rotate (fst (user_step view (EditRotate v))))
               = max (- 360) (min 360 (round_decimals 2 v))
           \<and> snd (user_step view (EditRotate v))
               = (if max (- 360) (min 360 (round_decimals 2 v))
                       = dsb_value (adjust_moving_image_rotate view) then []
                  else [adjust_image_signal (sb_value (adjust_moving_image_x view))
                          (sb_value (adjust_moving_image_y view))
                          (max (- 360) (min 360 (round_decimals 2 v)))])" for v
    using change_rotate_clamps [of view v] inv by simp
  have on_step: "user_step view (StepRotate n)
               = user_step view
                   (EditRotate (dsb_value (adjust_moving_image_rotate view)
                                  + real_of_int n * (1 / 2)))
           \<and> user_step view (StepX n)
               = user_step view (EditX (sb_value (adjust_moving_image_x view) + n))
           \<and> user_step view (StepY n)
               = user_step view (EditY (sb_value (adjust_moving_image_y view) + n))" for n
  proof -
    from inv have "dsb_single_step (adjust_moving_image_rotate view) = 1 / 2"
      by (simp add: configured_def)
    then show ?thesis by (simp only: user_step.simps)
  qed
  have on_reset:
    "sb_value (adjust_moving_image_x (fst (user_step view ClickReset))) = 0"
    "sb_value (adjust_moving_image_y (fst (user_step view ClickReset))) = 0"
    "dsb_value (adjust_moving_image_rotate (fst (user_step view ClickReset))) = 0"
    "snd (user_step view ClickReset)
         = (if sb_value (adjust_moving_image_x view) = 0 then []
            else [adjust_image_signal 0 (sb_value (adjust_moving_image_y view))
                    (dsb_value (adjust_moving_image_rotate view))])
           @ (if sb_value (adjust_moving_image_y view) = 0 then []
              else [adjust_image_signal 0 0 (dsb_value (adjust_moving_image_rotate view))])
           @ (if dsb_value (adjust_moving_image_rotate view) = 0 then []
              else [adjust_image_signal 0 0 0])
           @ [reset_image_signal]"
    using reset_trace [of view] inv by simp_all
  show ?thesis
  proof (intro conjI)
    show "\<forall>x y r. adjust_image_signal x y r \<in> set signals \<longrightarrow>
            - 2000 \<le> x \<and> x \<le> 2000 \<and> - 2000 \<le> y \<and> y \<le> 2000 \<and> - 360 \<le> r \<and> r \<le> 360"
      using bounds by blast
  qed (rule allI, rule on_x, rule allI, rule on_y, rule allI, rule on_rotate,
       rule allI, rule on_step, rule on_reset(1), rule on_reset(2), rule on_reset(3),
       rule on_reset(4))
qed

lemmas view_run =
  Let_def change_x_def change_y_def change_rotate_def init_view_def setRange_def
  setRange_double_def setSingleStep_def QSpinBox_def QDoubleSpinBox_def
  on_reset_image_button_click_def setValue_def setValue_double_def on_adjust_image_def
  round_decimals_def

theorem adjust_image_signal_in_range_witness:
  "snd (user_session init_view [EditX 5000, EditRotate (- 400)])
      = [adjust_image_signal 2000 0 0, adjust_image_signal 2000 0 (- 360)]
   \<and> snd (user_step (fst (user_session init_view [EditX 5000, EditRotate (- 400)]))
            (EditX (- 5000)))
      = [adjust_image_signal (- 2000) 0 (- 360)]
   \<and> snd (user_step (fst (user_session init_view [EditX 5000, EditRotate (- 400)]))
            (EditY (- 5000)))
      = [adjust_image_signal 2000 (- 2000) (- 360)]
   \<and> snd (user_step (fst (user_session init_view [EditX 5000, EditRotate (- 400)]))
            (EditY 5000))
      = [adjust_image_signal 2000 2000 (- 360)]
   \<and> snd (user_step (fst (user_session init_view [EditX 5000, EditRotate (- 400)]))
            (EditRotate 400))
      = [adjust_image_signal 2000 0 360]
   \<and> snd (user_step (fst (user_session init_view [EditX 5000, EditRotate (- 400)]))
            (EditRotate (- 90)))
      = [adjust_image_signal 2000 0 (- 90)]
   \<and> snd (user_step (fst (user_session init_view [EditX 5000, EditRotate (- 400)]))
            (StepRotate 4))
      = [adjust_image_signal 2000 0 (- 358)]
   \<and> snd (user_step (fst (user_session init_view [EditX 5000, EditRotate (- 400)]))
            ClickReset)
      = [adjust_image_signal 0 0 (- 360), adjust_image_signal 0 0 0, reset_image_signal]"
proof -
  let ?s = "user_session init_view [EditX 5000, EditRotate (- 400)]"
  define w where "w = fst ?s"
  have run: "?s = (w, snd ?s)"
    by (simp only: w_def prod.collapse)
  have trace: "snd ?s = [adjust_image_signal 2000 0 0, adjust_image_signal 2000 0 (- 360)]"
    by (simp add: view_run)
  have now: "sb_value (adjust_moving_image_x w) = 2000"
    "sb_value (adjust_moving_image_y w) = 0"
    "dsb_value (adjust_moving_image_rotate w) = - 360"
    unfolding w_def by (simp_all add: view_run)
  have rounded: "round_decimals 2 400 = 400" "round_decimals 2 (- 90) = - 90"
    "round_decimals 2 (- 358) = - 358"
    by (simp_all add: round_decimals_def)
  note clamped = adjust_image_signal_in_range [OF run]
  note x_clamped = clamped [THEN conjunct2, THEN conjunct1, THEN spec, THEN conjunct2]
  note y_clamped = clamped [THEN conjunct2, THEN conjunct2, THEN conjunct1, THEN spec,
      THEN conjunct2]
  note rotate_clamped = clamped [THEN conjunct2, THEN conjunct2, THEN conjunct2,
      THEN conjunct1, THEN spec, THEN conjunct2]
  note stepped = clamped [THEN conjunct2, THEN conjunct2, THEN conjunct2, THEN conjunct2,
      THEN conjunct1, THEN spec, THEN conjunct1]
  note reset = clamped [THEN conjunct2, THEN conjunct2, THEN conjunct2, THEN conjunct2,
      THEN conjunct2, THEN conjunct2, THEN conjunct2, THEN conjunct2]
  have "snd (user_step w (EditX (- 5000))) = [adjust_image_signal (- 2000) 0 (- 360)]"
    using x_clamped [of "- 5000"] by (simp add: now)
  moreover have "snd (user_step w (EditY (- 5000))) = [adjust_image_signal 2000 (- 2000) (- 360)]"
    using y_clamped [of "- 5000"] by (simp add: now)
  moreover have "snd (user_step w (EditY 5000)) = [adjust_image_signal 2000 2000 (- 360)]"
    using y_clamped [of 5000] by (simp add: now)
  moreover have "snd (user_step w (EditRotate 400)) = [adjust_image_signal 2000 0 360]"
    using rotate_clamped [of 400] by (simp add: now rounded)
  moreover have "snd (user_step w (EditRotate (- 90))) = [adjust_image_signal 2000 0 (- 90)]"
    using rotate_clamped [of "- 90"] by (simp add: now rounded)
  moreover have "snd (user_step w (StepRotate 4)) = [adjust_image_signal 2000 0 (- 358)]"
  proof -
    have "dsb_value (adjust_moving_image_rotate w) + real_of_int 4 * (1 / 2) = - 358"
      by (simp add: now)
    with stepped [of 4] have "user_step w (StepRotate 4) = user_step w (EditRotate (- 358))"
      by (simp only:)
    with rotate_clamped [of "- 358"] show ?thesis
      by (simp add: now rounded)
  qed
  moreover have "snd (user_step w ClickReset)
      = [adjust_image_signal 0 0 (- 360), adjust_image_signal 0 0 0, reset_image_signal]"
    using reset by (simp add: now)
  ultimately show ?thesis
    using trace unfolding w_def by (intro conjI)
qed

end
